theory Spec2Isabelle
  imports Main "HOL-Library.List_Lexorder" "HOL-Library.Char_ord" "HOL-Library.Multiset"
    "HOL-Library.Log_Nat"
begin

section \<open>The user page of the web client (ui/src/components/user.tsx)\<close>

text \<open>
  The page is a class component: it owns a state object, mutates it in place from its
  event handlers and from the handler of the inbound web-socket stream, and republishes
  it with \<^verbatim>\<open>setState\<close>. The embedding keeps the objects of the source that
  are shared and mutated (the state objects and the comment and post arrays) in explicit
  stores, because the field \<^verbatim>\<open>emptyState\<close> and the field
  \<^verbatim>\<open>state\<close> of the component refer to one object after construction.
  Everything a handler does to the outside (a request on the socket, a notification, a
  navigation, a login) is returned as a list of effects, in program order.
  Rendering, console logging, the document title, scrolling and tooltip setup are not
  part of the embedding, and neither is \<^verbatim>\<open>componentDidUpdate\<close>, which
  reloads the whole page when the location changes to another user.
\<close>

subsection \<open>Values of JavaScript\<close>

text \<open>
  A field that may hold \<^verbatim>\<open>null\<close> or \<^verbatim>\<open>undefined\<close> is an
  option. A condition on a string is false for the missing and for the empty string; a
  condition on a boolean is true for \<^verbatim>\<open>true\<close> only.
\<close>

definition truthy_string :: "string option \<Rightarrow> bool" where
  "truthy_string v = (case v of None \<Rightarrow> False | Some s \<Rightarrow> s \<noteq> [])"

definition truthy_bool :: "bool option \<Rightarrow> bool" where
  "truthy_bool v = (v = Some True)"

subsection \<open>Numbers of JavaScript\<close>

text \<open>
  The page index is a JavaScript number: it comes from \<^verbatim>\<open>Number(...)\<close> of a
  route parameter and is changed by \<^verbatim>\<open>++\<close> and \<^verbatim>\<open>--\<close>. A number
  is a double: not-a-number, an infinity, or a finite value, held here as the rational it
  denotes (the two zeros are one value). The sum of two finite numbers is their exact sum
  rounded to the nearest double, to the one with the even significand when two are equally
  near, and to an infinity from \<open>2^1024 - 2^970\<close> on. \<open>binade a\<close> is the
  exponent \<open>e\<close> with \<open>2^e \<le> a < 2^(e+1)\<close>, and \<open>ulp a\<close> the distance
  between neighbouring doubles there.
\<close>

datatype number = NaN | PosInfinity | NegInfinity | Finite rat

definition pow2 :: "int \<Rightarrow> rat" where
  "pow2 k = (if 0 \<le> k then 2 ^ nat k else 1 / 2 ^ nat (- k))"

definition binade :: "rat \<Rightarrow> int" where
  "binade a = (if 1 \<le> a then bitlen \<lfloor>a\<rfloor> - 1 else - bitlen (\<lceil>1 / a\<rceil> - 1))"

definition ulp :: "rat \<Rightarrow> rat" where
  "ulp a = pow2 (max (binade a) (- 1022) - 52)"

definition round_half_even :: "rat \<Rightarrow> int" where
  "round_half_even t =
     (let q = \<lfloor>t\<rfloor>; r = t - of_int q
      in if 1 / 2 < r \<or> (r = 1 / 2 \<and> odd q) then q + 1 else q)"

definition round_double :: "rat \<Rightarrow> number" where
  "round_double x =
     (if x = 0 then Finite 0
      else
        let a = \<bar>x\<bar>;
            y = of_int (round_half_even (a / ulp a)) * ulp a
        in if pow2 1024 \<le> y then (if 0 < x then PosInfinity else NegInfinity)
           else Finite (if 0 < x then y else - y))"

fun js_add :: "number \<Rightarrow> number \<Rightarrow> number" where
  "js_add NaN y = NaN"
| "js_add x NaN = NaN"
| "js_add PosInfinity NegInfinity = NaN"
| "js_add NegInfinity PosInfinity = NaN"
| "js_add PosInfinity y = PosInfinity"
| "js_add NegInfinity y = NegInfinity"
| "js_add x PosInfinity = PosInfinity"
| "js_add x NegInfinity = NegInfinity"
| "js_add (Finite a) (Finite b) = round_double (a + b)"

fun js_negate :: "number \<Rightarrow> number" where
  "js_negate NaN = NaN"
| "js_negate PosInfinity = NegInfinity"
| "js_negate NegInfinity = PosInfinity"
| "js_negate (Finite a) = Finite (- a)"

definition js_sub :: "number \<Rightarrow> number \<Rightarrow> number" where
  "js_sub x y = js_add x (js_negate y)"

subsection \<open>Interfaces\<close>

text \<open>
  Modelled from the spec: the file interfaces.ts (the enumerations SortType, ListingType
  and UserOperation and the payload interfaces) is missing. The spec calls the sort mode
  an "enumerated token" and the envelope a tagged message whose payload shape is
  "determined by tag"; user.tsx names the member \<^verbatim>\<open>SortType.New\<close>, the
  operation tags it dispatches on, and the payload fields it reads and writes. The
  records below carry those fields; the other members of SortType stand for the
  score-based sort modes.
\<close>

datatype View = Overview | Comments | Posts | Saved

datatype SortType = Hot | New | TopDay | TopWeek | TopMonth | TopYear | TopAll

datatype ListingType = All | Subscribed | Community

record UserView =
  id' :: "int option"
  name :: "string option"
  published :: "string option"
  number_of_posts :: "int option"
  post_score :: "int option"
  number_of_comments :: "int option"
  comment_score :: "int option"
  banned :: "bool option"
  avatar :: "string option"
  show_avatars :: "bool option"
  send_notifications_to_email :: "bool option"
  actor_id :: "string option"
  local :: "bool option"
  email :: "string option"
  matrix_user_id :: "string option"

record CommunityUser =
  community_id :: int
  community_name :: string

record Comment =
  id' :: int
  creator_id :: int
  content :: string
  published :: string
  score :: int
  upvotes :: int
  downvotes :: int
  my_vote :: "int option"
  saved :: "bool option"
  banned :: bool

record Post =
  id' :: int
  creator_id :: int
  published :: string
  score :: int
  upvotes :: int
  downvotes :: int
  my_vote :: "int option"
  banned :: bool

text \<open>The authenticated identity held by \<^verbatim>\<open>UserService.Instance.user\<close>.\<close>

record User =
  id' :: int
  username :: string
  show_nsfw :: bool
  theme :: "string option"
  default_sort_type :: SortType
  default_listing_type :: ListingType
  lang :: string
  avatar :: "string option"
  show_avatars :: bool

record UserSettingsForm =
  show_nsfw :: "bool option"
  theme :: "string option"
  default_sort_type :: "SortType option"
  default_listing_type :: "ListingType option"
  lang :: "string option"
  avatar :: "string option"
  email :: "string option"
  matrix_user_id :: "string option"
  new_password :: "string option"
  new_password_verify :: "string option"
  old_password :: "string option"
  show_avatars :: "bool option"
  send_notifications_to_email :: "bool option"
  auth :: "string option"

record DeleteAccountForm =
  password :: "string option"

record GetUserDetailsForm =
  user_id :: "int option"
  username :: "string option"
  sort' :: SortType
  saved_only :: bool
  page :: number
  limit :: int

record UserDetailsResponse =
  user :: UserView
  follows :: "CommunityUser list"
  moderates :: "CommunityUser list"
  comments :: "Comment list"
  posts :: "Post list"
  admins :: "UserView list"

record CommentResponse =
  comment :: Comment

record PostResponse =
  post :: Post

record BanUserResponse =
  user :: UserView
  banned :: bool

record AddAdminResponse =
  admins :: "UserView list"

record LoginResponse =
  jwt :: string

text \<open>
  The decoded envelope: the operation tag together with the payload of the shape that
  tag determines (the source casts \<^verbatim>\<open>res.data\<close> to that shape without a
  check). Every tag the page has no branch for is \<open>OtherOperation\<close>.
\<close>

datatype WebSocketResponse =
    GetUserDetails UserDetailsResponse
  | EditComment CommentResponse
  | CreateComment CommentResponse
  | SaveComment CommentResponse
  | CreateCommentLike CommentResponse
  | CreatePostLike PostResponse
  | BanUser BanUserResponse
  | AddAdmin AddAdminResponse
  | SaveUserSettings LoginResponse
  | DeleteAccount
  | OtherOperation

record WebSocketJsonResponse =
  op_data :: WebSocketResponse
  error :: "string option"
  reconnect :: "bool option"

subsection \<open>The state object and the component\<close>

text \<open>
  \<^verbatim>\<open>interface UserState\<close>. The fields \<open>comments\<close> and \<open>posts\<close>
  hold the address of an array, since the handlers mutate the elements of those arrays in
  place; the other collections are only ever replaced as a whole and are held by value.
  \<open>userSettingsLoading\<close> and \<open>deleteAccountLoading\<close> start as
  \<^verbatim>\<open>null\<close>. The fields \<^verbatim>\<open>userSettingsForm\<close> and
  \<^verbatim>\<open>deleteAccountForm\<close> are assigned once, in the initialiser of
  \<^verbatim>\<open>emptyState\<close>, and are copied as references ever after: every state
  object refers to the same two form objects, which the component record holds directly.
  The optional field \<^verbatim>\<open>saved\<close> is neither read nor written by the component
  and is left out.
\<close>

record UserState =
  user :: UserView
  user_id :: "int option"
  username :: "string option"
  follows :: "CommunityUser list"
  moderates :: "CommunityUser list"
  comments :: nat
  posts :: nat
  admins :: "UserView list"
  view :: View
  sort' :: SortType
  page :: number
  loading :: bool
  avatarLoading :: bool
  userSettingsLoading :: "bool option"
  deleteAccountLoading :: "bool option"
  deleteAccountShowConfirm :: bool

text \<open>
  The component instance with its object stores. \<open>state\<close> is the address the field
  \<^verbatim>\<open>this.state\<close> holds; the field \<^verbatim>\<open>this.emptyState\<close> is
  assigned once and always holds address \<open>0\<close>.
\<close>

record component =
  states :: "nat \<Rightarrow> UserState"
  state :: nat
  next_state :: nat
  commentArrays :: "nat \<Rightarrow> Comment list"
  postArrays :: "nat \<Rightarrow> Post list"
  next_array :: nat
  userSettingsForm :: UserSettingsForm
  deleteAccountForm :: DeleteAccountForm

definition emptyStateRef :: nat where
  "emptyStateRef = 0"

text \<open>Reading \<^verbatim>\<open>this.state\<close> and assigning to its fields.\<close>

definition cur :: "component \<Rightarrow> UserState" where
  "cur c = states c (state c)"

definition assign :: "(UserState \<Rightarrow> UserState) \<Rightarrow> component \<Rightarrow> component" where
  "assign f c = c\<lparr>states := (states c)(state c := f (cur c))\<rparr>"

definition the_comments :: "component \<Rightarrow> Comment list" where
  "the_comments c = commentArrays c (UserState.comments (cur c))"

definition the_posts :: "component \<Rightarrow> Post list" where
  "the_posts c = postArrays c (UserState.posts (cur c))"

text \<open>
  \<^verbatim>\<open>this.setState(this.state)\<close>. The framework merges the argument into a
  new object and makes that object the component's state: after the call
  \<^verbatim>\<open>this.state\<close> is a fresh shallow copy, whose reference fields (the
  arrays and the forms) are shared with the object it was copied from.
\<close>

definition setState :: "component \<Rightarrow> component" where
  "setState c =
     c\<lparr>states := (states c)(next_state c := cur c),
       state := next_state c,
       next_state := Suc (next_state c)\<rparr>"

subsection \<open>Effects\<close>

text \<open>
  What a handler does outside the component: \<open>Toast\<close> is a call of
  \<^verbatim>\<open>toast\<close> with the key handed to the translation and the colour, if one
  is given; \<open>HistoryPush\<close> a call of \<^verbatim>\<open>history.push\<close>, with
  \<open>Root\<close> for the path \<^verbatim>\<open>/\<close>; the three \<open>Send\<close> effects and
  \<open>Login\<close> are the calls of \<^verbatim>\<open>WebSocketService\<close> and of
  \<^verbatim>\<open>UserService.Instance.login\<close>; \<open>FetchUpload\<close> is the POST of
  the picture.
\<close>

datatype location =
    Root
  | UserLocation "string option" View SortType number

datatype effect =
    Toast string "string option"
  | HistoryPush location
  | SendGetUserDetails GetUserDetailsForm
  | SendSaveUserSettings UserSettingsForm
  | SendDeleteAccount DeleteAccountForm
  | Login LoginResponse
  | FetchUpload

subsection \<open>Construction\<close>

text \<open>
  The route parameters after the decoding that \<^verbatim>\<open>getViewFromProps\<close>,
  \<^verbatim>\<open>getSortTypeFromProps\<close>, \<^verbatim>\<open>getPageFromProps\<close> and
  \<^verbatim>\<open>Number(...)\<close> apply to them; a missing parameter is \<open>None\<close>.
\<close>

record Props =
  params_id :: "int option"
  params_username :: "string option"
  params_view :: "View option"
  params_sort :: "SortType option"
  params_page :: "number option"

definition getViewFromProps :: "Props \<Rightarrow> View" where
  "getViewFromProps props = (case params_view props of Some v \<Rightarrow> v | None \<Rightarrow> Overview)"

definition getSortTypeFromProps :: "Props \<Rightarrow> SortType" where
  "getSortTypeFromProps props = (case params_sort props of Some s \<Rightarrow> s | None \<Rightarrow> New)"

definition getPageFromProps :: "Props \<Rightarrow> number" where
  "getPageFromProps props = (case params_page props of Some p \<Rightarrow> p | None \<Rightarrow> Finite 1)"

definition emptyUser :: UserView where
  "emptyUser =
     \<lparr>UserView.id' = None, name = None, published = None, number_of_posts = None,
      post_score = None, number_of_comments = None, comment_score = None,
      banned = None, avatar = None, show_avatars = None,
      send_notifications_to_email = None, actor_id = None, local = None,
      email = None, matrix_user_id = None\<rparr>"

definition emptyState :: "Props \<Rightarrow> UserState" where
  "emptyState props =
     \<lparr>user = emptyUser, user_id = None, username = None, follows = [], moderates = [],
      comments = 0, posts = 0, admins = [],
      view = getViewFromProps props, sort' = getSortTypeFromProps props,
      page = getPageFromProps props,
      loading = True, avatarLoading = False,
      userSettingsLoading = None, deleteAccountLoading = None,
      deleteAccountShowConfirm = False\<rparr>"

definition emptyUserSettingsForm :: UserSettingsForm where
  "emptyUserSettingsForm =
     \<lparr>show_nsfw = None, theme = None, default_sort_type = None,
      default_listing_type = None, lang = None, avatar = None, email = None,
      matrix_user_id = None, new_password = None, new_password_verify = None,
      old_password = None, show_avatars = None, send_notifications_to_email = None,
      auth = None\<rparr>"

definition refetch :: "int \<Rightarrow> component \<Rightarrow> effect list" where
  "refetch fetchLimit c =
     [SendGetUserDetails
        \<lparr>GetUserDetailsForm.user_id = UserState.user_id (cur c),
         username = UserState.username (cur c),
         sort' = UserState.sort' (cur c),
         saved_only = (view (cur c) = Saved),
         page = UserState.page (cur c),
         limit = fetchLimit\<rparr>]"

text \<open>
  The constructor: the field initialiser allocates the object of
  \<^verbatim>\<open>emptyState\<close> with its empty arrays and its two forms,
  \<^verbatim>\<open>this.state = this.emptyState\<close> makes the state the same object, the two
  assignments that follow write into it, and \<^verbatim>\<open>refetch()\<close> sends the first
  load request. \<open>fetchLimit\<close> is the page-size constant of utils.ts, which is
  missing: it is a parameter wherever a request is built.
\<close>

definition constructor :: "int \<Rightarrow> Props \<Rightarrow> component \<times> effect list" where
  "constructor fetchLimit props =
     (let c0 = \<lparr>states = (\<lambda>_. emptyState props), state = emptyStateRef, next_state = 1,
                commentArrays = (\<lambda>_. []), postArrays = (\<lambda>_. []), next_array = 1,
                userSettingsForm = emptyUserSettingsForm,
                deleteAccountForm = \<lparr>password = None\<rparr>\<rparr>;
          c1 = assign (\<lambda>s. s\<lparr>UserState.user_id := params_id props\<rparr>) c0;
          c2 = assign (\<lambda>s. s\<lparr>UserState.username := params_username props\<rparr>) c1
      in (c2, refetch fetchLimit c2))"

subsection \<open>View parameters and their handlers\<close>

text \<open>
  \<^verbatim>\<open>componentWillReceiveProps\<close>: after a navigation with the action POP or PUSH
  the view, the sort mode and the page index are taken from the new route parameters, the
  state is published and the load request is sent.
\<close>

datatype history_action = POP | PUSH | REPLACE

definition componentWillReceiveProps ::
  "int \<Rightarrow> history_action \<Rightarrow> Props \<Rightarrow> component \<Rightarrow> component \<times> effect list" where
  "componentWillReceiveProps fetchLimit action nextProps c =
     (if action = POP \<or> action = PUSH then
        (let c1 = assign (\<lambda>s. s\<lparr>view := getViewFromProps nextProps\<rparr>) c;
             c2 = assign (\<lambda>s. s\<lparr>UserState.sort' := getSortTypeFromProps nextProps\<rparr>) c1;
             c3 = assign (\<lambda>s. s\<lparr>UserState.page := getPageFromProps nextProps\<rparr>) c2;
             c4 = setState c3
         in (c4, refetch fetchLimit c4))
      else (c, []))"

text \<open>
  Modelled from the spec: the router, the route table and the decoding helpers
  \<^verbatim>\<open>capitalizeFirstLetter\<close> and \<^verbatim>\<open>routeSortTypeToEnum\<close> of
  utils.ts are missing. The spec says of the location that it is "a path-segment encoding
  of target identity, view-category, sort-mode, and page index" and that the core "must
  accept re-hydration from them": the route parameters of the location
  \<^verbatim>\<open>/u/<name>/view/<view>/sort/<sort>/page/<page>\<close> decode to the name, the
  view, the sort mode and the page index it was built from (a missing name is printed as
  \<^verbatim>\<open>null\<close>), and the route has no id.
\<close>

definition route_params :: "string option \<Rightarrow> View \<Rightarrow> SortType \<Rightarrow> number \<Rightarrow> Props" where
  "route_params n v s p =
     \<lparr>params_id = None,
      params_username = Some (case n of Some x \<Rightarrow> x | None \<Rightarrow> ''null''),
      params_view = Some v, params_sort = Some s, params_page = Some p\<rparr>"

text \<open>
  \<^verbatim>\<open>updateUrl\<close> pushes the location built from the name of the loaded user and
  the current view, sort mode and page index. The location belongs to the page's own
  route, so the router hands the new route parameters to the mounted page at once:
  \<^verbatim>\<open>componentWillReceiveProps\<close> runs with the action PUSH before
  \<^verbatim>\<open>history.push\<close> returns.
\<close>

definition updateUrl :: "int \<Rightarrow> component \<Rightarrow> component \<times> effect list" where
  "updateUrl fetchLimit c =
     (let n = UserView.name (UserState.user (cur c));
          v = view (cur c);
          s = UserState.sort' (cur c);
          p = UserState.page (cur c);
          routed = componentWillReceiveProps fetchLimit PUSH (route_params n v s p) c
      in (fst routed, HistoryPush (UserLocation n v s p) # snd routed))"

definition nextPage :: "int \<Rightarrow> component \<Rightarrow> component \<times> effect list" where
  "nextPage fetchLimit i =
     (let i1 = assign (\<lambda>s. s\<lparr>UserState.page := js_add (UserState.page s) (Finite 1)\<rparr>) i;
          i2 = setState i1;
          pushed = updateUrl fetchLimit i2
      in (fst pushed, snd pushed @ refetch fetchLimit (fst pushed)))"

definition prevPage :: "int \<Rightarrow> component \<Rightarrow> component \<times> effect list" where
  "prevPage fetchLimit i =
     (let i1 = assign (\<lambda>s. s\<lparr>UserState.page := js_sub (UserState.page s) (Finite 1)\<rparr>) i;
          i2 = setState i1;
          pushed = updateUrl fetchLimit i2
      in (fst pushed, snd pushed @ refetch fetchLimit (fst pushed)))"

definition handleSortChange :: "int \<Rightarrow> SortType \<Rightarrow> component \<Rightarrow> component \<times> effect list" where
  "handleSortChange fetchLimit val c =
     (let c1 = assign (\<lambda>s. s\<lparr>UserState.sort' := val\<rparr>) c;
          c2 = assign (\<lambda>s. s\<lparr>UserState.page := Finite 1\<rparr>) c1;
          c3 = setState c2;
          pushed = updateUrl fetchLimit c3
      in (fst pushed, snd pushed @ refetch fetchLimit (fst pushed)))"

definition handleViewChange :: "int \<Rightarrow> View \<Rightarrow> component \<Rightarrow> component \<times> effect list" where
  "handleViewChange fetchLimit val i =
     (let i1 = assign (\<lambda>s. s\<lparr>view := val\<rparr>) i;
          i2 = assign (\<lambda>s. s\<lparr>UserState.page := Finite 1\<rparr>) i1;
          i3 = setState i2;
          pushed = updateUrl fetchLimit i3
      in (fst pushed, snd pushed @ refetch fetchLimit (fst pushed)))"

subsection \<open>Mutating actions\<close>

definition handleUserSettingsSubmit :: "component \<Rightarrow> component \<times> effect list" where
  "handleUserSettingsSubmit i =
     (let i1 = assign (\<lambda>s. s\<lparr>userSettingsLoading := Some True\<rparr>) i;
          i2 = setState i1
      in (i2, [SendSaveUserSettings (userSettingsForm i2)]))"

definition handleDeleteAccount :: "component \<Rightarrow> component \<times> effect list" where
  "handleDeleteAccount i =
     (let i1 = assign (\<lambda>s. s\<lparr>deleteAccountLoading := Some True\<rparr>) i;
          i2 = setState i1
      in (i2, [SendDeleteAccount (deleteAccountForm i2)]))"

text \<open>
  \<^verbatim>\<open>handleImageUpload\<close> sets the flag and starts the upload; the three
  continuations of the request (the answer \<^verbatim>\<open>ok\<close> with the URL built from
  the file hash, another answer, a failure) run later, as
  \<open>handleImageUpload_settled\<close>.
\<close>

datatype upload_result = UploadOk string | UploadNotOk string | UploadFailed string

definition handleImageUpload :: "component \<Rightarrow> component \<times> effect list" where
  "handleImageUpload i =
     (let i1 = assign (\<lambda>s. s\<lparr>avatarLoading := True\<rparr>) i;
          i2 = setState i1
      in (i2, [FetchUpload]))"

definition handleImageUpload_settled :: "upload_result \<Rightarrow> component \<Rightarrow> component \<times> effect list" where
  "handleImageUpload_settled r i =
     (case r of
        UploadOk url \<Rightarrow>
          (let i1 = i\<lparr>userSettingsForm :=
                       (userSettingsForm i)\<lparr>UserSettingsForm.avatar := Some url\<rparr>\<rparr>;
               i2 = assign (\<lambda>s. s\<lparr>avatarLoading := False\<rparr>) i1
           in (setState i2, []))
      | UploadNotOk body \<Rightarrow>
          (setState (assign (\<lambda>s. s\<lparr>avatarLoading := False\<rparr>) i),
           [Toast body (Some ''danger'')])
      | UploadFailed err \<Rightarrow>
          (setState (assign (\<lambda>s. s\<lparr>avatarLoading := False\<rparr>) i),
           [Toast err (Some ''danger'')]))"

subsection \<open>Reconcilers of utils.ts\<close>

text \<open>
  Modelled from the spec: the file utils.ts, with \<^verbatim>\<open>editCommentRes\<close>,
  \<^verbatim>\<open>saveCommentRes\<close>, \<^verbatim>\<open>createCommentLikeRes\<close> and
  \<^verbatim>\<open>createPostLikeFindRes\<close>, is missing. The spec says of them: "finds the
  item by identity key in the relevant collection and replaces only the mutated fields,
  preserving position; no-op if the item is absent", for "Edit-item / Save-item /
  Like-item (score change)". \<open>replaceFound\<close> is the search for the first entry with
  the key and its update in place; the mutated fields are the content for an edit, the
  saved mark for a save, and the score with its two vote counts for a like.
\<close>

fun replaceFound :: "('a \<Rightarrow> bool) \<Rightarrow> ('a \<Rightarrow> 'a) \<Rightarrow> 'a list \<Rightarrow> 'a list" where
  "replaceFound p f [] = []"
| "replaceFound p f (x # xs) = (if p x then f x # xs else x # replaceFound p f xs)"

definition editCommentRes :: "CommentResponse \<Rightarrow> Comment list \<Rightarrow> Comment list" where
  "editCommentRes data cs =
     replaceFound (\<lambda>c. Comment.id' c = Comment.id' (comment data))
       (\<lambda>found. found\<lparr>content := content (comment data)\<rparr>) cs"

definition saveCommentRes :: "CommentResponse \<Rightarrow> Comment list \<Rightarrow> Comment list" where
  "saveCommentRes data cs =
     replaceFound (\<lambda>c. Comment.id' c = Comment.id' (comment data))
       (\<lambda>found. found\<lparr>saved := saved (comment data)\<rparr>) cs"

definition createCommentLikeRes :: "CommentResponse \<Rightarrow> Comment list \<Rightarrow> Comment list" where
  "createCommentLikeRes data cs =
     replaceFound (\<lambda>c. Comment.id' c = Comment.id' (comment data))
       (\<lambda>found. found\<lparr>Comment.score := Comment.score (comment data),
                       Comment.upvotes := Comment.upvotes (comment data),
                       Comment.downvotes := Comment.downvotes (comment data)\<rparr>) cs"

definition createPostLikeFindRes :: "PostResponse \<Rightarrow> Post list \<Rightarrow> Post list" where
  "createPostLikeFindRes data ps =
     replaceFound (\<lambda>p. Post.id' p = Post.id' (post data))
       (\<lambda>found. found\<lparr>Post.score := Post.score (post data),
                       Post.upvotes := Post.upvotes (post data),
                       Post.downvotes := Post.downvotes (post data)\<rparr>) ps"

text \<open>
  Modelled from the spec: \<^verbatim>\<open>wsJsonToRes\<close> of utils.ts is missing; it is the
  "envelope decoding" that yields the operation tag with its payload.
\<close>

definition wsJsonToRes :: "WebSocketJsonResponse \<Rightarrow> WebSocketResponse" where
  "wsJsonToRes msg = op_data msg"

subsection \<open>The dispatcher\<close>

text \<open>
  \<^verbatim>\<open>get isCurrentUser\<close>; \<open>su\<close> is the value of
  \<^verbatim>\<open>UserService.Instance.user\<close> when the handler runs.
\<close>

definition isCurrentUser :: "User option \<Rightarrow> component \<Rightarrow> bool" where
  "isCurrentUser su c =
     (case su of None \<Rightarrow> False
      | Some u \<Rightarrow> Some (User.id' u) = UserView.id' (UserState.user (cur c)))"

definition seedUserSettingsForm :: "User \<Rightarrow> UserView \<Rightarrow> UserSettingsForm \<Rightarrow> UserSettingsForm" where
  "seedUserSettingsForm u target form =
     form\<lparr>UserSettingsForm.show_nsfw := Some (User.show_nsfw u),
          UserSettingsForm.theme :=
            (if truthy_string (User.theme u) then User.theme u else Some ''darkly''),
          UserSettingsForm.default_sort_type := Some (User.default_sort_type u),
          UserSettingsForm.default_listing_type := Some (User.default_listing_type u),
          UserSettingsForm.lang := Some (User.lang u),
          UserSettingsForm.avatar := User.avatar u,
          UserSettingsForm.email := UserView.email target,
          UserSettingsForm.send_notifications_to_email :=
            UserView.send_notifications_to_email target,
          UserSettingsForm.show_avatars := Some (User.show_avatars u),
          UserSettingsForm.matrix_user_id := UserView.matrix_user_id target\<rparr>"

definition parseMessage ::
  "int \<Rightarrow> User option \<Rightarrow> WebSocketJsonResponse \<Rightarrow> component \<Rightarrow> component \<times> effect list" where
  "parseMessage fetchLimit su msg c =
     (if truthy_string (error msg) then
        (let c1 = assign (\<lambda>s. s\<lparr>deleteAccountLoading := Some False\<rparr>) c;
             c2 = assign (\<lambda>s. s\<lparr>avatarLoading := False\<rparr>) c1;
             c3 = assign (\<lambda>s. s\<lparr>userSettingsLoading := Some False\<rparr>) c2
         in (setState c3,
             Toast (the (error msg)) (Some ''danger'') #
             (if error msg = Some ''couldnt_find_that_username_or_email''
              then [HistoryPush Root] else [])))
      else if truthy_bool (reconnect msg) then (c, refetch fetchLimit c)
      else
        (case wsJsonToRes msg of
           GetUserDetails data \<Rightarrow>
             (let a = next_array c;
                  c1 = c\<lparr>commentArrays :=
                           (commentArrays c)(a := UserDetailsResponse.comments data),
                         postArrays := (postArrays c)(a := UserDetailsResponse.posts data),
                         next_array := Suc a\<rparr>;
                  c2 = assign (\<lambda>s. s\<lparr>UserState.user := UserDetailsResponse.user data,
                                       UserState.comments := a,
                                       UserState.follows := UserDetailsResponse.follows data,
                                       UserState.moderates := UserDetailsResponse.moderates data,
                                       UserState.posts := a,
                                       UserState.admins := UserDetailsResponse.admins data,
                                       loading := False\<rparr>) c1;
                  c3 = (if isCurrentUser su c2
                        then c2\<lparr>userSettingsForm :=
                                  seedUserSettingsForm (the su) (UserState.user (cur c2))
                                    (userSettingsForm c2)\<rparr>
                        else c2)
              in (setState c3, []))
         | EditComment data \<Rightarrow>
             (setState
                (c\<lparr>commentArrays := (commentArrays c)
                      (UserState.comments (cur c) := editCommentRes data (the_comments c))\<rparr>),
              [])
         | CreateComment data \<Rightarrow>
             (c, (case su of None \<Rightarrow> []
                  | Some u \<Rightarrow>
                      if Comment.creator_id (comment data) = User.id' u
                      then [Toast ''reply_sent'' None] else []))
         | SaveComment data \<Rightarrow>
             (setState
                (c\<lparr>commentArrays := (commentArrays c)
                      (UserState.comments (cur c) := saveCommentRes data (the_comments c))\<rparr>),
              [])
         | CreateCommentLike data \<Rightarrow>
             (setState
                (c\<lparr>commentArrays := (commentArrays c)
                      (UserState.comments (cur c) := createCommentLikeRes data (the_comments c))\<rparr>),
              [])
         | CreatePostLike data \<Rightarrow>
             (setState
                (c\<lparr>postArrays := (postArrays c)
                      (UserState.posts (cur c) := createPostLikeFindRes data (the_posts c))\<rparr>),
              [])
         | BanUser data \<Rightarrow>
             (let c1 = c\<lparr>commentArrays := (commentArrays c)
                           (UserState.comments (cur c) :=
                              map (\<lambda>x. if Some (Comment.creator_id x) =
                                             UserView.id' (BanUserResponse.user data)
                                        then x\<lparr>Comment.banned := BanUserResponse.banned data\<rparr>
                                        else x)
                                (the_comments c))\<rparr>;
                  c2 = c1\<lparr>postArrays := (postArrays c1)
                           (UserState.posts (cur c1) :=
                              map (\<lambda>x. if Some (Post.creator_id x) =
                                             UserView.id' (BanUserResponse.user data)
                                        then x\<lparr>Post.banned := BanUserResponse.banned data\<rparr>
                                        else x)
                                (the_posts c1))\<rparr>
              in (setState c2, []))
         | AddAdmin data \<Rightarrow>
             (setState
                (assign (\<lambda>s. s\<lparr>UserState.admins := AddAdminResponse.admins data\<rparr>) c),
              [])
         | SaveUserSettings data \<Rightarrow>
             (let c1 = c\<lparr>state := emptyStateRef\<rparr>;
                  c2 = assign (\<lambda>s. s\<lparr>userSettingsLoading := Some False\<rparr>) c1
              in (setState c2, [Login data]))
         | DeleteAccount \<Rightarrow>
             (let c1 = assign (\<lambda>s. s\<lparr>deleteAccountLoading := Some False\<rparr>) c;
                  c2 = assign (\<lambda>s. s\<lparr>deleteAccountShowConfirm := False\<rparr>) c1
              in (setState c2, [HistoryPush Root]))
         | OtherOperation \<Rightarrow> (c, [])))"

subsection \<open>The overview list\<close>







subsection \<open>The subscription to the inbound stream\<close>

text \<open>
  The constructor subscribes to
  \<^verbatim>\<open>subject.pipe(retryWhen(errors => errors.pipe(delay(3000), take(10))))\<close>
  with three callbacks: \<^verbatim>\<open>parseMessage\<close> for a value,
  \<^verbatim>\<open>console.error\<close> for an error, \<^verbatim>\<open>console.log('complete')\<close>
  for completion. The operators are those of the rxjs library: \<^verbatim>\<open>retryWhen\<close>
  passes values on, hands every error of the source to the notifier built by its argument,
  subscribes to the source again whenever the notifier emits, and completes when the
  notifier completes; \<^verbatim>\<open>delay(d)\<close> emits each value \<open>d\<close> milliseconds
  later; \<^verbatim>\<open>take(n)\<close> passes the first \<open>n\<close> values on and completes
  right after the \<open>n\<close>-th (at once for \<open>n = 0\<close>). The notifier is built once, so
  \<open>taken\<close> counts the errors of the whole subscription. Time is not modelled: the
  delay is recorded in the \<open>Resubscribe\<close> action.
\<close>

datatype 'a notification = Next 'a | Error string | Complete

datatype 'a observed = OnNext 'a | OnError string | OnComplete | Resubscribe nat

record retry_state =
  taken :: nat
  stopped :: bool

definition retryWhen_delay_take ::
  "nat \<Rightarrow> nat \<Rightarrow> retry_state \<Rightarrow> 'a notification \<Rightarrow> retry_state \<times> 'a observed list" where
  "retryWhen_delay_take d n s ev =
     (if stopped s then (s, [])
      else case ev of
        Next m \<Rightarrow> (s, [OnNext m])
      | Complete \<Rightarrow> (s\<lparr>stopped := True\<rparr>, [OnComplete])
      | Error e \<Rightarrow>
          (if n = 0 then (s\<lparr>stopped := True\<rparr>, [OnComplete])
           else if Suc (taken s) < n then (s\<lparr>taken := Suc (taken s)\<rparr>, [Resubscribe d])
           else (s\<lparr>taken := Suc (taken s), stopped := True\<rparr>, [Resubscribe d, OnComplete])))"

definition subscription_step ::
  "retry_state \<Rightarrow> 'a notification \<Rightarrow> retry_state \<times> 'a observed list" where
  "subscription_step = retryWhen_delay_take 3000 10"

fun subscription_run :: "retry_state \<Rightarrow> 'a notification list \<Rightarrow> 'a observed list" where
  "subscription_run s [] = []"
| "subscription_run s (ev # evs) =
     (case subscription_step s ev of (s', out) \<Rightarrow> out @ subscription_run s' evs)"

definition subscribed :: retry_state where
  "subscribed = \<lparr>taken = 0, stopped = False\<rparr>"

subsection \<open>Sequences of events\<close>

datatype event =
    SortChange SortType
  | ViewChange View
  | NextPage
  | PrevPage
  | UserSettingsSubmit
  | DeleteAccountSubmit
  | ImageUpload
  | ImageUploadSettled upload_result
  | ReceiveProps history_action Props
  | Inbound "User option" WebSocketJsonResponse

fun handle :: "int \<Rightarrow> event \<Rightarrow> component \<Rightarrow> component \<times> effect list" where
  "handle fetchLimit (SortChange val) c = handleSortChange fetchLimit val c"
| "handle fetchLimit (ViewChange val) c = handleViewChange fetchLimit val c"
| "handle fetchLimit NextPage c = nextPage fetchLimit c"
| "handle fetchLimit PrevPage c = prevPage fetchLimit c"
| "handle fetchLimit UserSettingsSubmit c = handleUserSettingsSubmit c"
| "handle fetchLimit DeleteAccountSubmit c = handleDeleteAccount c"
| "handle fetchLimit ImageUpload c = handleImageUpload c"
| "handle fetchLimit (ImageUploadSettled r) c = handleImageUpload_settled r c"
| "handle fetchLimit (ReceiveProps action nextProps) c =
     componentWillReceiveProps fetchLimit action nextProps c"
| "handle fetchLimit (Inbound su msg) c = parseMessage fetchLimit su msg c"

fun run :: "int \<Rightarrow> event list \<Rightarrow> component \<Rightarrow> component" where
  "run fetchLimit [] c = c"
| "run fetchLimit (e # es) c = run fetchLimit es (fst (handle fetchLimit e c))"

subsection \<open>Busy flags and outstanding requests\<close>

datatype busy_flag = UserSettingsLoading | DeleteAccountLoading | AvatarLoading

fun flag_is_true :: "busy_flag \<Rightarrow> UserState \<Rightarrow> bool" where
  "flag_is_true UserSettingsLoading s = (userSettingsLoading s = Some True)"
| "flag_is_true DeleteAccountLoading s = (deleteAccountLoading s = Some True)"
| "flag_is_true AvatarLoading s = avatarLoading s"

fun sends_request :: "event \<Rightarrow> busy_flag \<Rightarrow> bool" where
  "sends_request UserSettingsSubmit f = (f = UserSettingsLoading)"
| "sends_request DeleteAccountSubmit f = (f = DeleteAccountLoading)"
| "sends_request ImageUpload f = (f = AvatarLoading)"
| "sends_request _ f = False"

text \<open>
  An envelope is an error envelope when its error key is set, and otherwise, unless it is
  a reconnect advisory, it delivers its operation.
\<close>

fun error_envelope :: "event \<Rightarrow> bool" where
  "error_envelope (Inbound su msg) = truthy_string (error msg)"
| "error_envelope _ = False"

fun delivers :: "event \<Rightarrow> WebSocketResponse option" where
  "delivers (Inbound su msg) =
     (if truthy_string (error msg) \<or> truthy_bool (reconnect msg) then None
      else Some (wsJsonToRes msg))"
| "delivers _ = None"

fun matching_success :: "event \<Rightarrow> busy_flag \<Rightarrow> bool" where
  "matching_success e UserSettingsLoading =
     (case delivers e of Some (SaveUserSettings d) \<Rightarrow> True | _ \<Rightarrow> False)"
| "matching_success e DeleteAccountLoading = (delivers e = Some DeleteAccount)"
| "matching_success e AvatarLoading =
     (case e of ImageUploadSettled r \<Rightarrow> True | _ \<Rightarrow> False)"

text \<open>
  The spec's reading of "outstanding": the request of the flag has been sent and no
  terminal response (the matching success, or any error) has been processed since.
  \<open>b\<close> is whether a request is outstanding before the events.
\<close>

definition terminal_response :: "event \<Rightarrow> busy_flag \<Rightarrow> bool" where
  "terminal_response e f = (matching_success e f \<or> error_envelope e)"

fun outstanding_spec :: "busy_flag \<Rightarrow> bool \<Rightarrow> event list \<Rightarrow> bool" where
  "outstanding_spec f b [] = b"
| "outstanding_spec f b (e # es) =
     outstanding_spec f
       (if sends_request e f then True else if terminal_response e f then False else b) es"

text \<open>
  The reading the page implements: a settings-save success ends the wait of every flag,
  because it replaces the whole state object.
\<close>

definition resets_page :: "event \<Rightarrow> bool" where
  "resets_page e = (case delivers e of Some (SaveUserSettings d) \<Rightarrow> True | _ \<Rightarrow> False)"

fun outstanding :: "busy_flag \<Rightarrow> bool \<Rightarrow> event list \<Rightarrow> bool" where
  "outstanding f b [] = b"
| "outstanding f b (e # es) =
     outstanding f
       (if sends_request e f then True
        else if terminal_response e f \<or> resets_page e then False else b) es"

text \<open>
  A component whose state object is no longer the object of
  \<^verbatim>\<open>emptyState\<close> (as after the first \<^verbatim>\<open>setState\<close>) and whose
  \<^verbatim>\<open>emptyState\<close> holds no busy flag that is true.
\<close>

definition detached :: "component \<Rightarrow> bool" where
  "detached c =
     (state c \<noteq> emptyStateRef \<and> state c < next_state c \<and> emptyStateRef < next_state c \<and>
      \<not> flag_is_true UserSettingsLoading (states c emptyStateRef) \<and>
      \<not> flag_is_true DeleteAccountLoading (states c emptyStateRef) \<and>
      \<not> flag_is_true AvatarLoading (states c emptyStateRef))"

subsection \<open>Updates in place\<close>

text \<open>
  What it means for a collection to be updated in place by \<open>f\<close> at the entry
  selected by \<open>p\<close>: the length is kept; with no selected entry the collection is
  unchanged; otherwise the first selected entry is replaced, where it stands, by its image
  under \<open>f\<close>, and every other position holds what it held.
\<close>

definition replaced_in_place ::
  "('a \<Rightarrow> bool) \<Rightarrow> ('a \<Rightarrow> 'a) \<Rightarrow> 'a list \<Rightarrow> 'a list \<Rightarrow> bool" where
  "replaced_in_place p f old new =
     (length new = length old
      \<and> ((\<forall>x \<in> set old. \<not> p x) \<longrightarrow> new = old)
      \<and> ((\<exists>x \<in> set old. p x) \<longrightarrow>
            (\<exists>i < length old. p (old ! i) \<and> (\<forall>j < i. \<not> p (old ! j)) \<and>
               new ! i = f (old ! i) \<and>
               (\<forall>j < length old. j \<noteq> i \<longrightarrow> new ! j = old ! j))))"

subsection \<open>The location and the load request of a state\<close>

text \<open>
  The location and the load request that belong to a state object: what the spec calls
  the location descriptor and the request "built from" the view parameters.
\<close>

definition location_of :: "UserState \<Rightarrow> location" where
  "location_of s =
     UserLocation (UserView.name (UserState.user s)) (view s) (UserState.sort' s)
       (UserState.page s)"

definition load_request :: "int \<Rightarrow> UserState \<Rightarrow> GetUserDetailsForm" where
  "load_request fetchLimit s =
     \<lparr>GetUserDetailsForm.user_id = UserState.user_id s,
      username = UserState.username s,
      sort' = UserState.sort' s,
      saved_only = (view s = Saved),
      page = UserState.page s,
      limit = fetchLimit\<rparr>"

subsection \<open>Example data\<close>

text \<open>
  A page opened at \<^verbatim>\<open>/u/alice\<close> (no view, sort or page in the route:
  overview, New, page 1), and the answer to its first load request: the user alice, who
  has the id 42.
\<close>

definition example_props :: Props where
  "example_props =
     \<lparr>params_id = None, params_username = Some ''alice'', params_view = None,
      params_sort = None, params_page = None\<rparr>"

definition example_user :: UserView where
  "example_user =
     emptyUser\<lparr>UserView.id' := Some 42, UserView.name := Some ''alice'',
       UserView.email := Some ''alice@example.org'',
       UserView.send_notifications_to_email := Some True,
       UserView.matrix_user_id := Some ''@alice:example.org''\<rparr>"

definition example_comment :: Comment where
  "example_comment =
     \<lparr>Comment.id' = 7, creator_id = 42, content = ''hello'', published = ''2020-01-03'',
      score = 1, upvotes = 1, downvotes = 0, my_vote = None, saved = None, banned = False\<rparr>"

definition example_post :: "int \<Rightarrow> string \<Rightarrow> int \<Rightarrow> Post" where
  "example_post i p s =
     \<lparr>Post.id' = i, creator_id = 42, published = p, score = s, upvotes = s,
      downvotes = 0, my_vote = None, banned = False\<rparr>"

definition example_details :: UserDetailsResponse where
  "example_details =
     \<lparr>UserDetailsResponse.user = example_user, follows = [], moderates = [],
      comments = [example_comment],
      posts = [example_post 10 ''2020-01-02'' 5, example_post 11 ''2020-01-01'' 3],
      admins = []\<rparr>"

definition example_identity :: User where
  "example_identity =
     \<lparr>User.id' = 42, username = ''alice'', show_nsfw = True, theme = Some ''litera'',
      default_sort_type = TopWeek, default_listing_type = Subscribed, lang = ''fr'',
      avatar = Some ''/pictrs/image/alice.png'', show_avatars = False\<rparr>"

definition example_ban :: BanUserResponse where
  "example_ban = \<lparr>BanUserResponse.user = example_user, banned = True\<rparr>"

definition example_edit :: CommentResponse where
  "example_edit = \<lparr>comment = example_comment\<lparr>content := ''edited''\<rparr>\<rparr>"

definition envelope :: "WebSocketResponse \<Rightarrow> WebSocketJsonResponse" where
  "envelope r = \<lparr>op_data = r, error = None, reconnect = None\<rparr>"

definition error_envelope_of :: "string \<Rightarrow> WebSocketJsonResponse" where
  "error_envelope_of k = \<lparr>op_data = OtherOperation, error = Some k, reconnect = None\<rparr>"

definition example_page :: component where
  "example_page = fst (constructor 20 example_props)"

definition example_loaded :: component where
  "example_loaded =
     fst (parseMessage 20 None (envelope (GetUserDetails example_details)) example_page)"

definition example_login :: LoginResponse where
  "example_login = \<lparr>jwt = ''token''\<rparr>"

text \<open>
  The same page holding no comments and the two posts of the scenario of the spec:
  ids 10 and 11 with scores 5 and 3, post 10 being the more recent one.
\<close>

definition scenario_details :: UserDetailsResponse where
  "scenario_details =
     \<lparr>UserDetailsResponse.user = example_user, follows = [], moderates = [],
      comments = [],
      posts = [example_post 10 ''2020-01-02'' 5, example_post 11 ''2020-01-01'' 3],
      admins = []\<rparr>"

definition scenario_loaded :: component where
  "scenario_loaded =
     fst (parseMessage 20 None (envelope (GetUserDetails scenario_details)) example_page)"

text \<open>
  The page is loaded; the user submits the settings and then the deletion of the
  account; the answer to the settings arrives.
\<close>

definition example_trace :: "event list" where
  "example_trace =
     [Inbound None (envelope (GetUserDetails example_details)),
      UserSettingsSubmit,
      DeleteAccountSubmit,
      Inbound None (envelope (SaveUserSettings example_login))]"

text \<open>
  On a page that has not published a state yet: the deletion is submitted and answered
  by an error, then the settings are submitted and saved.
\<close>

definition early_trace :: "event list" where
  "early_trace =
     [DeleteAccountSubmit,
      Inbound None (error_envelope_of ''password_incorrect''),
      UserSettingsSubmit,
      Inbound None (envelope (SaveUserSettings example_login))]"

text \<open>Ten failures of the connection, with a delivered message after each.\<close>

definition failing_stream :: "WebSocketJsonResponse notification list" where
  "failing_stream = concat (replicate 10 [Error ''closed'', Next (envelope OtherOperation)])"

subsection \<open>Notions used by the properties\<close>

text \<open>The value of a busy flag after one event, given its value before.\<close>

definition flag_after :: "event \<Rightarrow> busy_flag \<Rightarrow> bool \<Rightarrow> bool" where
  "flag_after e f b =
     (if sends_request e f then True
      else if terminal_response e f \<or> resets_page e then False else b)"




fun is_error :: "'a notification \<Rightarrow> bool" where
  "is_error (Error e) = True"
| "is_error _ = False"

definition errors :: "'a notification list \<Rightarrow> nat" where
  "errors evs = length (filter is_error evs)"

fun is_resubscribe :: "'a observed \<Rightarrow> bool" where
  "is_resubscribe (Resubscribe d) = True"
| "is_resubscribe _ = False"

fun emitted :: "'a notification list \<Rightarrow> 'a list" where
  "emitted [] = []"
| "emitted (Next m # evs) = m # emitted evs"
| "emitted (_ # evs) = emitted evs"

fun delivered :: "'a observed list \<Rightarrow> 'a list" where
  "delivered [] = []"
| "delivered (OnNext m # out) = m # delivered out"
| "delivered (_ # out) = delivered out"

section \<open>Properties\<close>

subsection \<open>Reading and writing the state object\<close>

lemmas example_defs = example_props_def example_user_def example_comment_def
  example_ban_def example_edit_def example_login_def scenario_details_def
  scenario_loaded_def example_trace_def early_trace_def
  example_post_def example_details_def example_identity_def envelope_def
  error_envelope_of_def example_page_def example_loaded_def

lemmas model_defs = constructor_def parseMessage_def assign_def setState_def cur_def
  the_comments_def the_posts_def emptyState_def emptyStateRef_def wsJsonToRes_def
  truthy_string_def truthy_bool_def isCurrentUser_def refetch_def updateUrl_def
  handleSortChange_def handleViewChange_def nextPage_def prevPage_def
  handleUserSettingsSubmit_def handleDeleteAccount_def handleImageUpload_def
  handleImageUpload_settled_def getViewFromProps_def getSortTypeFromProps_def
  getPageFromProps_def componentWillReceiveProps_def route_params_def

lemma cur_setState: "cur (setState c) = cur c"
  by (simp add: cur_def setState_def)

lemma cur_assign: "cur (assign f c) = f (cur c)"
  by (simp add: cur_def assign_def)

lemma setState_frame:
  "commentArrays (setState c) = commentArrays c"
  "postArrays (setState c) = postArrays c"
  "userSettingsForm (setState c) = userSettingsForm c"
  "deleteAccountForm (setState c) = deleteAccountForm c"
  "next_array (setState c) = next_array c"
  by (simp_all add: setState_def)

lemma assign_frame:
  "commentArrays (assign f c) = commentArrays c"
  "postArrays (assign f c) = postArrays c"
  "userSettingsForm (assign f c) = userSettingsForm c"
  "deleteAccountForm (assign f c) = deleteAccountForm c"
  "next_array (assign f c) = next_array c"
  "state (assign f c) = state c"
  "next_state (assign f c) = next_state c"
  by (simp_all add: assign_def)

lemma the_comments_setState: "the_comments (setState c) = the_comments c"
  by (simp add: the_comments_def cur_setState setState_frame)

lemma the_posts_setState: "the_posts (setState c) = the_posts c"
  by (simp add: the_posts_def cur_setState setState_frame)

lemma truthy_string_Some: "truthy_string (Some k) = (k \<noteq> [])"
  by (simp add: truthy_string_def)

subsection \<open>Error envelopes\<close>

lemma parseMessage_error:
  assumes "truthy_string (error msg)"
  shows "parseMessage fetchLimit su msg c =
     (setState (assign (\<lambda>s. s\<lparr>deleteAccountLoading := Some False, avatarLoading := False,
                               userSettingsLoading := Some False\<rparr>) c),
      Toast (the (error msg)) (Some ''danger'') #
      (if error msg = Some ''couldnt_find_that_username_or_email''
       then [HistoryPush Root] else []))"
  using assms by (simp add: parseMessage_def Let_def assign_def cur_def)

text \<open>
  Claim C1. An envelope whose error key is set (a non-empty string \<open>k\<close>, which is what
  the condition of the source tests) makes \<open>parseMessage\<close> set the three busy flags
  \<open>deleteAccountLoading\<close>, \<open>avatarLoading\<close> and \<open>userSettingsLoading\<close> to
  false and show \<open>k\<close> as a notification; it navigates away exactly when \<open>k\<close> is
  \<open>couldnt_find_that_username_or_email\<close>, and for every other key the notification
  is its only effect, so that the page stays subscribed.
\<close>

theorem C1_error_envelope:
  assumes "error msg = Some k" and "k \<noteq> []"
  shows "deleteAccountLoading (cur (fst (parseMessage fetchLimit su msg c))) = Some False
       \<and> avatarLoading (cur (fst (parseMessage fetchLimit su msg c))) = False
       \<and> userSettingsLoading (cur (fst (parseMessage fetchLimit su msg c))) = Some False
       \<and> Toast k (Some ''danger'') \<in> set (snd (parseMessage fetchLimit su msg c))
       \<and> (HistoryPush Root \<in> set (snd (parseMessage fetchLimit su msg c))
            \<longleftrightarrow> k = ''couldnt_find_that_username_or_email'')
       \<and> (k \<noteq> ''couldnt_find_that_username_or_email''
            \<longrightarrow> snd (parseMessage fetchLimit su msg c) = [Toast k (Some ''danger'')])"
proof -
  have t: "truthy_string (error msg)"
    using assms by (simp add: truthy_string_Some)
  show ?thesis
    unfolding parseMessage_error [OF t]
    using assms by (simp add: cur_setState cur_assign)
qed

theorem C1_error_envelope_witness:
  "error (error_envelope_of ''couldnt_find_that_username_or_email'')
     = Some ''couldnt_find_that_username_or_email''
   \<and> ''couldnt_find_that_username_or_email'' \<noteq> []
   \<and> deleteAccountLoading (cur (fst (parseMessage 20 None
        (error_envelope_of ''couldnt_find_that_username_or_email'') example_loaded)))
       = Some False
   \<and> HistoryPush Root \<in> set (snd (parseMessage 20 None
        (error_envelope_of ''couldnt_find_that_username_or_email'') example_loaded))"
proof -
  have h1: "error (error_envelope_of ''couldnt_find_that_username_or_email'')
              = Some ''couldnt_find_that_username_or_email''"
    by (simp add: error_envelope_of_def)
  have h2: "''couldnt_find_that_username_or_email'' \<noteq> []"
    by simp
  show ?thesis
    using h1 C1_error_envelope [OF h1 h2, of 20 None example_loaded] by simp
qed

text \<open>
  Claim C10. An error envelope changes nothing of the view model but the three mutation
  busy flags: the state object after it is the one before with those three fields set to
  false, so \<open>loading\<close> keeps its value (an error that arrives before the first load
  leaves it true), and the user snapshot, the comments, the posts, the follows, the
  moderates, the admins, the settings draft and the page index are what they were.
\<close>

theorem C10_error_envelope_frame:
  assumes "error msg = Some k" and "k \<noteq> []"
  shows "(let c' = fst (parseMessage fetchLimit su msg c) in
            cur c' = (cur c)\<lparr>deleteAccountLoading := Some False, avatarLoading := False,
                             userSettingsLoading := Some False\<rparr>
          \<and> loading (cur c') = loading (cur c)
          \<and> UserState.user (cur c') = UserState.user (cur c)
          \<and> the_comments c' = the_comments c
          \<and> the_posts c' = the_posts c
          \<and> UserState.follows (cur c') = UserState.follows (cur c)
          \<and> UserState.moderates (cur c') = UserState.moderates (cur c)
          \<and> UserState.admins (cur c') = UserState.admins (cur c)
          \<and> userSettingsForm c' = userSettingsForm c
          \<and> UserState.page (cur c') = UserState.page (cur c))"
proof -
  have t: "truthy_string (error msg)"
    using assms by (simp add: truthy_string_Some)
  show ?thesis
    unfolding parseMessage_error [OF t] Let_def
    by (simp add: cur_setState cur_assign the_comments_def the_posts_def
        setState_frame assign_frame)
qed

theorem C10_error_envelope_frame_witness:
  "error (error_envelope_of ''not_logged_in'') = Some ''not_logged_in''
   \<and> ''not_logged_in'' \<noteq> []
   \<and> loading (cur example_page)
   \<and> loading (cur (fst (parseMessage 20 None (error_envelope_of ''not_logged_in'')
        example_page)))"
proof -
  have h1: "error (error_envelope_of ''not_logged_in'') = Some ''not_logged_in''"
    by (simp add: error_envelope_of_def)
  have h2: "''not_logged_in'' \<noteq> []"
    by simp
  have l: "loading (cur example_page)"
    by (simp add: example_defs model_defs Let_def)
  show ?thesis
    using h1 l C10_error_envelope_frame [OF h1 h2, of 20 None example_page]
    by (simp add: Let_def)
qed

subsection \<open>The load operation\<close>

text \<open>
  Claim C2. A GetUserDetails response (no error key, no reconnect advisory) replaces, in
  the one step of \<open>parseMessage\<close>, the user snapshot, the comments, the posts, the
  follows, the moderates and the admins by those of the payload and sets \<open>loading\<close>
  to false. The settings draft is seeded exactly when an identity is authenticated and
  its id is the id of the loaded user. Then the draft takes from the identity the nsfw
  setting, the theme (\<open>darkly\<close> when the identity has none), the default sort and
  listing types, the language, the avatar and the avatar display setting, and from the
  loaded snapshot of that same identity the email, the notification setting and the
  matrix id; its password fields and its token stay as they were. Otherwise the draft is
  unchanged.
\<close>

theorem C2_load:
  assumes "\<not> truthy_string (error msg)" and "\<not> truthy_bool (reconnect msg)"
    and "wsJsonToRes msg = GetUserDetails data"
  shows "(let c' = fst (parseMessage fetchLimit su msg c) in
            UserState.user (cur c') = UserDetailsResponse.user data
          \<and> the_comments c' = UserDetailsResponse.comments data
          \<and> the_posts c' = UserDetailsResponse.posts data
          \<and> UserState.follows (cur c') = UserDetailsResponse.follows data
          \<and> UserState.moderates (cur c') = UserDetailsResponse.moderates data
          \<and> UserState.admins (cur c') = UserDetailsResponse.admins data
          \<and> loading (cur c') = False
          \<and> userSettingsForm c' =
              (case su of
                 None \<Rightarrow> userSettingsForm c
               | Some u \<Rightarrow>
                   if Some (User.id' u) = UserView.id' (UserDetailsResponse.user data)
                   then (userSettingsForm c)
                     \<lparr>UserSettingsForm.show_nsfw := Some (User.show_nsfw u),
                      UserSettingsForm.theme :=
                        (if User.theme u = None \<or> User.theme u = Some []
                         then Some ''darkly'' else User.theme u),
                      UserSettingsForm.default_sort_type := Some (User.default_sort_type u),
                      UserSettingsForm.default_listing_type :=
                        Some (User.default_listing_type u),
                      UserSettingsForm.lang := Some (User.lang u),
                      UserSettingsForm.avatar := User.avatar u,
                      UserSettingsForm.email :=
                        UserView.email (UserDetailsResponse.user data),
                      UserSettingsForm.send_notifications_to_email :=
                        UserView.send_notifications_to_email (UserDetailsResponse.user data),
                      UserSettingsForm.show_avatars := Some (User.show_avatars u),
                      UserSettingsForm.matrix_user_id :=
                        UserView.matrix_user_id (UserDetailsResponse.user data)\<rparr>
                   else userSettingsForm c)
          \<and> snd (parseMessage fetchLimit su msg c) = [])"
  using assms
  by (cases su)
     (auto simp add: parseMessage_def Let_def the_comments_def the_posts_def
        isCurrentUser_def cur_def assign_def setState_def seedUserSettingsForm_def
        truthy_string_def split: option.splits)

theorem C2_load_witness:
  "\<not> truthy_string (error (envelope (GetUserDetails example_details)))
   \<and> \<not> truthy_bool (reconnect (envelope (GetUserDetails example_details)))
   \<and> wsJsonToRes (envelope (GetUserDetails example_details)) = GetUserDetails example_details
   \<and> the_comments (fst (parseMessage 20 (Some example_identity)
        (envelope (GetUserDetails example_details)) example_page)) = [example_comment]
   \<and> \<not> loading (cur (fst (parseMessage 20 (Some example_identity)
        (envelope (GetUserDetails example_details)) example_page)))
   \<and> userSettingsForm (fst (parseMessage 20 (Some example_identity)
        (envelope (GetUserDetails example_details)) example_page))
       = \<lparr>show_nsfw = Some True, theme = Some ''litera'', default_sort_type = Some TopWeek,
          default_listing_type = Some Subscribed, lang = Some ''fr'',
          avatar = Some ''/pictrs/image/alice.png'', email = Some ''alice@example.org'',
          matrix_user_id = Some ''@alice:example.org'', new_password = None,
          new_password_verify = None, old_password = None, show_avatars = Some False,
          send_notifications_to_email = Some True, auth = None\<rparr>
   \<and> userSettingsForm (fst (parseMessage 20 None
        (envelope (GetUserDetails example_details)) example_page))
       = emptyUserSettingsForm"
proof -
  have h1: "\<not> truthy_string (error (envelope (GetUserDetails example_details)))"
    by (simp add: envelope_def truthy_string_def)
  have h2: "\<not> truthy_bool (reconnect (envelope (GetUserDetails example_details)))"
    by (simp add: envelope_def truthy_bool_def)
  have h3: "wsJsonToRes (envelope (GetUserDetails example_details))
              = GetUserDetails example_details"
    by (simp add: envelope_def wsJsonToRes_def)
  have f: "userSettingsForm example_page = emptyUserSettingsForm"
    by (simp add: example_page_def constructor_def Let_def assign_def)
  show ?thesis
    using h1 h2 h3 f
      C2_load [OF h1 h2 h3, of 20 "Some example_identity" example_page]
      C2_load [OF h1 h2 h3, of 20 None example_page]
    by (simp add: Let_def example_details_def example_user_def example_identity_def
        emptyUser_def emptyUserSettingsForm_def)
qed

subsection \<open>The ban operation\<close>

text \<open>
  Claim C4. A BanUser payload sets \<open>banned\<close> to the payload's value on every comment
  and on every post whose \<open>creator_id\<close> is the id of the payload's user, and leaves
  every other entry as it was; both collections keep their length and every entry keeps
  its position.
\<close>

theorem C4_ban:
  assumes "\<not> truthy_string (error msg)" and "\<not> truthy_bool (reconnect msg)"
    and "wsJsonToRes msg = BanUser data"
  shows "(let c' = fst (parseMessage fetchLimit su msg c) in
            length (the_comments c') = length (the_comments c)
          \<and> length (the_posts c') = length (the_posts c)
          \<and> (\<forall>i < length (the_comments c).
                the_comments c' ! i =
                  (if Some (Comment.creator_id (the_comments c ! i))
                        = UserView.id' (BanUserResponse.user data)
                   then (the_comments c ! i)\<lparr>Comment.banned := BanUserResponse.banned data\<rparr>
                   else the_comments c ! i))
          \<and> (\<forall>i < length (the_posts c).
                the_posts c' ! i =
                  (if Some (Post.creator_id (the_posts c ! i))
                        = UserView.id' (BanUserResponse.user data)
                   then (the_posts c ! i)\<lparr>Post.banned := BanUserResponse.banned data\<rparr>
                   else the_posts c ! i)))"
  using assms
  by (simp add: parseMessage_def Let_def the_comments_def the_posts_def
        cur_def assign_def setState_def)

theorem C4_ban_witness:
  "\<not> truthy_string (error (envelope (BanUser example_ban)))
   \<and> \<not> truthy_bool (reconnect (envelope (BanUser example_ban)))
   \<and> wsJsonToRes (envelope (BanUser example_ban))
       = BanUser example_ban
   \<and> the_comments example_loaded = [example_comment]
   \<and> the_comments (fst (parseMessage 20 None
        (envelope (BanUser example_ban)) example_loaded)) ! 0
       = example_comment\<lparr>Comment.banned := True\<rparr>"
proof -
  have h1: "\<not> truthy_string (error (envelope (BanUser example_ban)))"
    by (simp add: envelope_def truthy_string_def)
  have h2: "\<not> truthy_bool (reconnect (envelope (BanUser example_ban)))"
    by (simp add: envelope_def truthy_bool_def)
  have h3: "wsJsonToRes (envelope (BanUser example_ban))
              = BanUser example_ban"
    by (simp add: envelope_def wsJsonToRes_def)
  have l: "the_comments example_loaded = [example_comment]"
    by (simp add: example_defs model_defs Let_def)
  show ?thesis
    using h1 h2 h3 l C4_ban [OF h1 h2 h3, of 20 None example_loaded]
    by (simp add: Let_def example_comment_def example_user_def example_ban_def)
qed

subsection \<open>Item updates\<close>

lemma length_replaceFound: "length (replaceFound p f xs) = length xs"
  by (induction xs) simp_all

lemma replaceFound_absent: "\<forall>x \<in> set xs. \<not> p x \<Longrightarrow> replaceFound p f xs = xs"
  by (induction xs) simp_all

lemma replaceFound_present:
  "\<exists>x \<in> set xs. p x \<Longrightarrow>
   \<exists>i < length xs. p (xs ! i) \<and> (\<forall>j < i. \<not> p (xs ! j)) \<and>
      replaceFound p f xs = xs[i := f (xs ! i)]"
proof (induction xs)
  case Nil
  then show ?case by simp
next
  case (Cons x xs)
  show ?case
  proof (cases "p x")
    case True
    then have "p ((x # xs) ! 0) \<and> (\<forall>j < 0. \<not> p ((x # xs) ! j)) \<and>
      replaceFound p f (x # xs) = (x # xs)[0 := f ((x # xs) ! 0)]"
      by simp
    then show ?thesis by blast
  next
    case False
    with Cons.prems have "\<exists>x \<in> set xs. p x" by simp
    from Cons.IH [OF this] obtain i where i: "i < length xs" "p (xs ! i)"
      "\<forall>j < i. \<not> p (xs ! j)" "replaceFound p f xs = xs[i := f (xs ! i)]"
      by blast
    have "\<forall>j < Suc i. \<not> p ((x # xs) ! j)"
    proof (intro allI impI)
      fix j assume "j < Suc i"
      then show "\<not> p ((x # xs) ! j)"
        using False i(3) by (cases j) simp_all
    qed
    with i False have "Suc i < length (x # xs) \<and> p ((x # xs) ! Suc i) \<and>
      (\<forall>j < Suc i. \<not> p ((x # xs) ! j)) \<and>
      replaceFound p f (x # xs) = (x # xs)[Suc i := f ((x # xs) ! Suc i)]"
      by simp
    then show ?thesis by blast
  qed
qed

lemma replaceFound_replaced:
  "replaced_in_place p f xs (replaceFound p f xs)"
  unfolding replaced_in_place_def
proof (intro conjI impI)
  show "length (replaceFound p f xs) = length xs"
    by (rule length_replaceFound)
next
  assume "\<forall>x \<in> set xs. \<not> p x"
  then show "replaceFound p f xs = xs"
    by (rule replaceFound_absent)
next
  assume "\<exists>x \<in> set xs. p x"
  from replaceFound_present [OF this, of f] obtain i where
    i: "i < length xs" "p (xs ! i)" "\<forall>j < i. \<not> p (xs ! j)"
      "replaceFound p f xs = xs[i := f (xs ! i)]"
    by blast
  have "replaceFound p f xs ! i = f (xs ! i)"
    using i by simp
  moreover have "\<forall>j < length xs. j \<noteq> i \<longrightarrow> replaceFound p f xs ! j = xs ! j"
    using i by simp
  ultimately show "\<exists>i < length xs. p (xs ! i) \<and> (\<forall>j < i. \<not> p (xs ! j)) \<and>
               replaceFound p f xs ! i = f (xs ! i) \<and>
               (\<forall>j < length xs. j \<noteq> i \<longrightarrow> replaceFound p f xs ! j = xs ! j)"
    using i by blast
qed

lemma replaced_in_place_single:
  assumes "replaced_in_place p f [x] new" and "p x"
  shows "new = [f x]"
proof -
  from assms(1) have l: "length new = 1"
    by (simp add: replaced_in_place_def)
  then obtain y where y: "new = [y]"
    by (cases new) simp_all
  from assms have "\<exists>i < 1. new ! i = f ([x] ! i)"
    by (auto simp add: replaced_in_place_def)
  then have "new ! 0 = f x"
    by simp
  with y show ?thesis
    by simp
qed

lemma parseMessage_comment_update:
  assumes "\<not> truthy_string (error msg)" and "\<not> truthy_bool (reconnect msg)"
  shows "wsJsonToRes msg = EditComment data \<Longrightarrow>
           the_comments (fst (parseMessage fetchLimit su msg c))
             = editCommentRes data (the_comments c)
         \<and> the_posts (fst (parseMessage fetchLimit su msg c)) = the_posts c"
    and "wsJsonToRes msg = SaveComment data \<Longrightarrow>
           the_comments (fst (parseMessage fetchLimit su msg c))
             = saveCommentRes data (the_comments c)
         \<and> the_posts (fst (parseMessage fetchLimit su msg c)) = the_posts c"
    and "wsJsonToRes msg = CreateCommentLike data \<Longrightarrow>
           the_comments (fst (parseMessage fetchLimit su msg c))
             = createCommentLikeRes data (the_comments c)
         \<and> the_posts (fst (parseMessage fetchLimit su msg c)) = the_posts c"
  using assms
  by (simp_all add: parseMessage_def Let_def the_comments_def the_posts_def
        cur_def assign_def setState_def)

lemma parseMessage_post_update:
  assumes "\<not> truthy_string (error msg)" and "\<not> truthy_bool (reconnect msg)"
    and "wsJsonToRes msg = CreatePostLike data"
  shows "the_posts (fst (parseMessage fetchLimit su msg c))
           = createPostLikeFindRes data (the_posts c)
       \<and> the_comments (fst (parseMessage fetchLimit su msg c)) = the_comments c"
  using assms
  by (simp add: parseMessage_def Let_def the_comments_def the_posts_def
        cur_def assign_def setState_def)

text \<open>
  Claim C5. An EditComment, SaveComment or CreateCommentLike envelope updates the
  comments in place at the first entry with the payload's id, and a CreatePostLike
  envelope the posts: the collection keeps its length; when an entry has the id, that
  entry is replaced where it stands by itself with the mutated fields taken from the
  payload (the content for an edit, the saved mark for a save, the score and the two vote
  counts for a like) and all other positions are unchanged; when no entry has the id the
  collection is unchanged, so nothing is ever inserted. The other collection is
  untouched.
\<close>

theorem C5_item_update:
  assumes "\<not> truthy_string (error msg)" and "\<not> truthy_bool (reconnect msg)"
  shows "(wsJsonToRes msg = EditComment data \<longrightarrow>
            replaced_in_place (\<lambda>x. Comment.id' x = Comment.id' (comment data))
              (\<lambda>x. x\<lparr>content := content (comment data)\<rparr>)
              (the_comments c) (the_comments (fst (parseMessage fetchLimit su msg c)))
          \<and> the_posts (fst (parseMessage fetchLimit su msg c)) = the_posts c)
       \<and> (wsJsonToRes msg = SaveComment data \<longrightarrow>
            replaced_in_place (\<lambda>x. Comment.id' x = Comment.id' (comment data))
              (\<lambda>x. x\<lparr>saved := saved (comment data)\<rparr>)
              (the_comments c) (the_comments (fst (parseMessage fetchLimit su msg c)))
          \<and> the_posts (fst (parseMessage fetchLimit su msg c)) = the_posts c)
       \<and> (wsJsonToRes msg = CreateCommentLike data \<longrightarrow>
            replaced_in_place (\<lambda>x. Comment.id' x = Comment.id' (comment data))
              (\<lambda>x. x\<lparr>Comment.score := Comment.score (comment data),
                      Comment.upvotes := Comment.upvotes (comment data),
                      Comment.downvotes := Comment.downvotes (comment data)\<rparr>)
              (the_comments c) (the_comments (fst (parseMessage fetchLimit su msg c)))
          \<and> the_posts (fst (parseMessage fetchLimit su msg c)) = the_posts c)
       \<and> (wsJsonToRes msg = CreatePostLike pdata \<longrightarrow>
            replaced_in_place (\<lambda>x. Post.id' x = Post.id' (post pdata))
              (\<lambda>x. x\<lparr>Post.score := Post.score (post pdata),
                      Post.upvotes := Post.upvotes (post pdata),
                      Post.downvotes := Post.downvotes (post pdata)\<rparr>)
              (the_posts c) (the_posts (fst (parseMessage fetchLimit su msg c)))
          \<and> the_comments (fst (parseMessage fetchLimit su msg c)) = the_comments c)"
proof (intro conjI impI)
  assume "wsJsonToRes msg = EditComment data"
  from parseMessage_comment_update(1) [OF assms this, of fetchLimit su c]
  show "replaced_in_place (\<lambda>x. Comment.id' x = Comment.id' (comment data))
              (\<lambda>x. x\<lparr>content := content (comment data)\<rparr>)
              (the_comments c) (the_comments (fst (parseMessage fetchLimit su msg c)))"
    and "the_posts (fst (parseMessage fetchLimit su msg c)) = the_posts c"
    by (simp_all add: editCommentRes_def replaceFound_replaced)
next
  assume "wsJsonToRes msg = SaveComment data"
  from parseMessage_comment_update(2) [OF assms this, of fetchLimit su c]
  show "replaced_in_place (\<lambda>x. Comment.id' x = Comment.id' (comment data))
              (\<lambda>x. x\<lparr>saved := saved (comment data)\<rparr>)
              (the_comments c) (the_comments (fst (parseMessage fetchLimit su msg c)))"
    and "the_posts (fst (parseMessage fetchLimit su msg c)) = the_posts c"
    by (simp_all add: saveCommentRes_def replaceFound_replaced)
next
  assume "wsJsonToRes msg = CreateCommentLike data"
  from parseMessage_comment_update(3) [OF assms this, of fetchLimit su c]
  show "replaced_in_place (\<lambda>x. Comment.id' x = Comment.id' (comment data))
              (\<lambda>x. x\<lparr>Comment.score := Comment.score (comment data),
                      Comment.upvotes := Comment.upvotes (comment data),
                      Comment.downvotes := Comment.downvotes (comment data)\<rparr>)
              (the_comments c) (the_comments (fst (parseMessage fetchLimit su msg c)))"
    and "the_posts (fst (parseMessage fetchLimit su msg c)) = the_posts c"
    by (simp_all add: createCommentLikeRes_def replaceFound_replaced)
next
  assume "wsJsonToRes msg = CreatePostLike pdata"
  from parseMessage_post_update [OF assms this, of fetchLimit su c]
  show "replaced_in_place (\<lambda>x. Post.id' x = Post.id' (post pdata))
              (\<lambda>x. x\<lparr>Post.score := Post.score (post pdata),
                      Post.upvotes := Post.upvotes (post pdata),
                      Post.downvotes := Post.downvotes (post pdata)\<rparr>)
              (the_posts c) (the_posts (fst (parseMessage fetchLimit su msg c)))"
    and "the_comments (fst (parseMessage fetchLimit su msg c)) = the_comments c"
    by (simp_all add: createPostLikeFindRes_def replaceFound_replaced)
qed

theorem C5_item_update_witness:
  "\<not> truthy_string (error (envelope (EditComment example_edit)))
   \<and> \<not> truthy_bool (reconnect (envelope (EditComment example_edit)))
   \<and> wsJsonToRes (envelope (EditComment example_edit)) = EditComment example_edit
   \<and> the_comments example_loaded = [example_comment]
   \<and> content example_comment = ''hello''
   \<and> the_comments (fst (parseMessage 20 None (envelope (EditComment example_edit))
        example_loaded)) = [example_comment\<lparr>content := ''edited''\<rparr>]"
proof -
  have h1: "\<not> truthy_string (error (envelope (EditComment example_edit)))"
    by (simp add: envelope_def truthy_string_def)
  have h2: "\<not> truthy_bool (reconnect (envelope (EditComment example_edit)))"
    by (simp add: envelope_def truthy_bool_def)
  have h3: "wsJsonToRes (envelope (EditComment example_edit)) = EditComment example_edit"
    by (simp add: envelope_def wsJsonToRes_def)
  have l: "the_comments example_loaded = [example_comment]"
    by (simp add: example_defs model_defs Let_def)
  have k: "Comment.id' example_comment = Comment.id' (comment example_edit)"
    "content (comment example_edit) = ''edited''" "content example_comment = ''hello''"
    by (simp_all add: example_edit_def example_comment_def)
  from C5_item_update [OF h1 h2, of example_edit example_loaded 20 None] h3 l
  have "replaced_in_place (\<lambda>x. Comment.id' x = Comment.id' (comment example_edit))
          (\<lambda>x. x\<lparr>content := content (comment example_edit)\<rparr>) [example_comment]
          (the_comments (fst (parseMessage 20 None (envelope (EditComment example_edit))
             example_loaded)))"
    by simp
  from replaced_in_place_single [OF this k(1)]
  show ?thesis
    using h1 h2 h3 l k by simp
qed

subsection \<open>Changes of the view parameters\<close>

lemma pow2_pos: "0 < pow2 k"
  by (simp add: pow2_def)

lemma ulp_pos: "0 < ulp a"
  by (simp add: ulp_def pow2_pos)

lemma round_half_even_int: "round_half_even (of_int k) = k"
  by (simp add: round_half_even_def)

lemma binade_eqI:
  assumes "2 ^ k \<le> a" and "a < 2 ^ Suc k"
  shows "binade a = int k"
proof -
  have "(1::rat) \<le> 2 ^ k" by simp
  with assms(1) have a1: "1 \<le> a" by linarith
  let ?m = "\<lfloor>a\<rfloor>"
  have l: "(2::int) ^ k \<le> ?m"
    using assms(1) by (simp add: le_floor_iff)
  have u: "?m < (2::int) ^ Suc k"
    using assms(2) by (simp add: floor_less_iff)
  have "(0::int) < 2 ^ k" by simp
  with l have pos: "0 < ?m" by linarith
  from bitlen_bounds [OF pos]
  have b1: "2 ^ nat (bitlen ?m - 1) \<le> ?m" and b2: "?m < 2 ^ nat (bitlen ?m)" by simp_all
  have "(2::int) ^ k < 2 ^ nat (bitlen ?m)" using l b2 by linarith
  then have c1: "k < nat (bitlen ?m)"
    by (rule power_less_imp_less_exp [rotated]) simp
  have "(2::int) ^ nat (bitlen ?m - 1) < 2 ^ Suc k" using b1 u by linarith
  then have c2: "nat (bitlen ?m - 1) < Suc k"
    by (rule power_less_imp_less_exp [rotated]) simp
  have "bitlen ?m = int k + 1" using c1 c2 by linarith
  then show ?thesis using a1 by (simp add: binade_def)
qed

lemma round_double_multiple:
  assumes "0 < a" and "a / ulp a = of_int k" and "a < pow2 1024"
  shows "round_double a = Finite a" and "round_double (- a) = Finite (- a)"
proof -
  have y: "of_int k * ulp a = a"
    using assms(2) ulp_pos [of a] by (simp add: field_simps)
  have n: "\<not> pow2 1024 \<le> a" using assms(3) by simp
  show "round_double a = Finite a"
    using assms(1) n by (simp add: round_double_def Let_def assms(2) round_half_even_int y)
  show "round_double (- a) = Finite (- a)"
    using assms(1) n by (simp add: round_double_def Let_def assms(2) round_half_even_int y)
qed

lemma binade_int:
  assumes "0 < m" and "m \<le> 2 ^ 53"
  shows "0 \<le> binade (of_int m)" and "binade (of_int m) \<le> 53"
    and "binade (of_int m) = 53 \<Longrightarrow> m = 2 ^ 53"
proof -
  have a1: "(1::rat) \<le> of_int m" using assms(1) by simp
  from bitlen_bounds [OF assms(1)]
  have b1: "2 ^ nat (bitlen m - 1) \<le> m" and b2: "m < 2 ^ nat (bitlen m)" by simp_all
  have "bitlen m \<noteq> 0" using assms(1) by (simp add: bitlen_eq_zero_iff)
  with bitlen_nonneg [of m] have bl: "1 \<le> bitlen m" by linarith
  have e: "binade (of_int m) = bitlen m - 1" using a1 by (simp add: binade_def)
  show "0 \<le> binade (of_int m)" using e bl by simp
  have "(2::int) ^ nat (bitlen m - 1) \<le> 2 ^ 53" using b1 assms(2) by linarith
  then have c: "nat (bitlen m - 1) \<le> 53"
    by (rule power_le_imp_le_exp [rotated]) simp
  then show "binade (of_int m) \<le> 53" using e by linarith
  assume "binade (of_int m) = 53"
  then have "nat (bitlen m - 1) = 53" using e by simp
  with b1 have "(2::int) ^ 53 \<le> m" by simp
  with assms(2) show "m = 2 ^ 53" by linarith
qed

lemma pow2_1024: "(2::rat) ^ 53 < pow2 1024"
proof -
  have "(2::rat) ^ 53 < 2 ^ 1024"
    by (rule power_strict_increasing) simp_all
  then show ?thesis by (simp add: pow2_def)
qed

lemma round_double_int:
  assumes "\<bar>m\<bar> \<le> 2 ^ 53"
  shows "round_double (of_int m) = Finite (of_int m)"
proof (cases "m = 0")
  case True
  then show ?thesis by (simp add: round_double_def)
next
  case False
  define a where "a = \<bar>m\<bar>"
  have a: "0 < a" "a \<le> 2 ^ 53" using False assms by (simp_all add: a_def)
  define e where "e = binade (of_int a :: rat)"
  have b: "0 \<le> e" "e \<le> 53" "e = 53 \<Longrightarrow> a = 2 ^ 53"
    using binade_int [OF a] by (simp_all add: e_def)
  have mx: "max e (- 1022) = e" using b(1) by simp
  have "\<exists>k. (of_int a :: rat) / pow2 (e - 52) = of_int k"
  proof (cases "e = 53")
    case True
    with b(3) have "a = 2 ^ 53" by simp
    then have "(of_int a :: rat) / pow2 (e - 52) = of_int (2 ^ 52)"
      using True by (simp add: pow2_def)
    then show ?thesis by blast
  next
    case False
    with b(2) have le: "e \<le> 52" by simp
    then have "(of_int a :: rat) / pow2 (e - 52) = of_int (a * 2 ^ nat (52 - e))"
      by (cases "e = 52") (simp_all add: pow2_def)
    then show ?thesis by blast
  qed
  then obtain k where k: "(of_int a :: rat) / ulp (of_int a) = of_int k"
    using mx by (auto simp: e_def ulp_def)
  have "(of_int a :: rat) \<le> of_int (2 ^ 53)" using a(2) by (simp only: of_int_le_iff)
  then have "(of_int a :: rat) \<le> 2 ^ 53" by simp
  with pow2_1024 have lt: "(of_int a :: rat) < pow2 1024" by linarith
  have pa: "(0::rat) < of_int a" using a(1) by simp
  show ?thesis
  proof (cases "0 < m")
    case True
    then have "a = m" by (simp add: a_def)
    with round_double_multiple(1) [OF pa k lt] show ?thesis by simp
  next
    case False
    then have "m = - a" using \<open>m \<noteq> 0\<close> by (simp add: a_def)
    with round_double_multiple(2) [OF pa k lt] show ?thesis by simp
  qed
qed

text \<open>
  Adding or subtracting one is exact on the integers below \<open>2^53\<close> in magnitude; at
  \<open>2^53\<close> the sum is rounded back to \<open>2^53\<close>, and not-a-number stays.
\<close>

lemma js_step_int:
  assumes "\<bar>n\<bar> < 2 ^ 53"
  shows "js_add (Finite (of_int n)) (Finite 1) = Finite (of_int (n + 1))"
    and "js_sub (Finite (of_int n)) (Finite 1) = Finite (of_int (n - 1))"
proof -
  have "\<bar>n + 1\<bar> \<le> 2 ^ 53" and "\<bar>n - 1\<bar> \<le> 2 ^ 53"
    using assms by simp_all
  from round_double_int [OF this(1)] round_double_int [OF this(2)]
  show "js_add (Finite (of_int n)) (Finite 1) = Finite (of_int (n + 1))"
    and "js_sub (Finite (of_int n)) (Finite 1) = Finite (of_int (n - 1))"
    by (simp_all add: js_sub_def)
qed

lemma js_add_2_53: "js_add (Finite (2 ^ 53)) (Finite 1) = Finite (2 ^ 53)"
proof -
  have b: "binade 9007199254740993 = 53"
    using binade_eqI [of 53 9007199254740993] by simp
  have u: "ulp 9007199254740993 = 2"
    by (simp add: ulp_def b pow2_def)
  have f: "\<lfloor>9007199254740993 / 2 :: rat\<rfloor> = 4503599627370496"
    by (simp add: floor_eq_iff)
  have r: "round_half_even (9007199254740993 / 2) = 4503599627370496"
    by (simp add: round_half_even_def Let_def f)
  have "round_double 9007199254740993 = Finite 9007199254740992"
    using pow2_1024 by (simp add: round_double_def Let_def u r)
  then show ?thesis by simp
qed

lemma js_step_NaN: "js_add NaN (Finite 1) = NaN" "js_sub NaN (Finite 1) = NaN"
  by (simp_all add: js_sub_def)

lemma updateUrl_eq:
  "updateUrl fetchLimit c =
     (setState c,
      [HistoryPush (location_of (cur c)), SendGetUserDetails (load_request fetchLimit (cur c))])"
proof -
  have "assign (\<lambda>s. s\<lparr>UserState.page := UserState.page (cur c)\<rparr>)
          (assign (\<lambda>s. s\<lparr>UserState.sort' := UserState.sort' (cur c)\<rparr>)
            (assign (\<lambda>s. s\<lparr>view := view (cur c)\<rparr>) c)) = c"
    by (simp add: assign_def cur_def)
  then show ?thesis
    by (simp add: updateUrl_def componentWillReceiveProps_def route_params_def Let_def
        getViewFromProps_def getSortTypeFromProps_def getPageFromProps_def refetch_def
        location_of_def load_request_def cur_setState)
qed

lemma refetch_eq: "refetch fetchLimit c = [SendGetUserDetails (load_request fetchLimit (cur c))]"
  by (simp add: refetch_def load_request_def)

text \<open>
  Claim C8, as amended. A change of the sort mode or of the view category sets the page
  index to 1, and next/prev change the page index only, to the sum of the page index and
  one and to their difference as JavaScript computes them, which is one more and one less
  for every integer page index below \<open>2^53\<close> in magnitude. Each of the four handlers
  then pushes the location built from the now-current name, view, sort and page and
  sends the load request built from the now-current parameters; the request goes out
  twice, once from \<^verbatim>\<open>componentWillReceiveProps\<close>, which the pushed location
  triggers, and once from the handler. None of them writes \<open>loading\<close>: the state
  object after the handler is the one before with the sort (or view) and the page
  replaced.
\<close>

theorem C8_view_parameters:
  "cur (fst (handleSortChange fetchLimit val c))
     = (cur c)\<lparr>UserState.sort' := val, UserState.page := Finite 1\<rparr>
   \<and> snd (handleSortChange fetchLimit val c) =
       [HistoryPush (location_of ((cur c)\<lparr>UserState.sort' := val, UserState.page := Finite 1\<rparr>)),
        SendGetUserDetails
          (load_request fetchLimit ((cur c)\<lparr>UserState.sort' := val, UserState.page := Finite 1\<rparr>)),
        SendGetUserDetails
          (load_request fetchLimit ((cur c)\<lparr>UserState.sort' := val, UserState.page := Finite 1\<rparr>))]
   \<and> cur (fst (handleViewChange fetchLimit v c))
       = (cur c)\<lparr>view := v, UserState.page := Finite 1\<rparr>
   \<and> snd (handleViewChange fetchLimit v c) =
       [HistoryPush (location_of ((cur c)\<lparr>view := v, UserState.page := Finite 1\<rparr>)),
        SendGetUserDetails
          (load_request fetchLimit ((cur c)\<lparr>view := v, UserState.page := Finite 1\<rparr>)),
        SendGetUserDetails
          (load_request fetchLimit ((cur c)\<lparr>view := v, UserState.page := Finite 1\<rparr>))]
   \<and> cur (fst (nextPage fetchLimit c))
       = (cur c)\<lparr>UserState.page := js_add (UserState.page (cur c)) (Finite 1)\<rparr>
   \<and> snd (nextPage fetchLimit c) =
       [HistoryPush
          (location_of ((cur c)\<lparr>UserState.page := js_add (UserState.page (cur c)) (Finite 1)\<rparr>)),
        SendGetUserDetails
          (load_request fetchLimit
             ((cur c)\<lparr>UserState.page := js_add (UserState.page (cur c)) (Finite 1)\<rparr>)),
        SendGetUserDetails
          (load_request fetchLimit
             ((cur c)\<lparr>UserState.page := js_add (UserState.page (cur c)) (Finite 1)\<rparr>))]
   \<and> cur (fst (prevPage fetchLimit c))
       = (cur c)\<lparr>UserState.page := js_sub (UserState.page (cur c)) (Finite 1)\<rparr>
   \<and> snd (prevPage fetchLimit c) =
       [HistoryPush
          (location_of ((cur c)\<lparr>UserState.page := js_sub (UserState.page (cur c)) (Finite 1)\<rparr>)),
        SendGetUserDetails
          (load_request fetchLimit
             ((cur c)\<lparr>UserState.page := js_sub (UserState.page (cur c)) (Finite 1)\<rparr>)),
        SendGetUserDetails
          (load_request fetchLimit
             ((cur c)\<lparr>UserState.page := js_sub (UserState.page (cur c)) (Finite 1)\<rparr>))]
   \<and> (\<bar>n\<bar> < 2 ^ 53 \<longrightarrow>
        js_add (Finite (of_int n)) (Finite 1) = Finite (of_int (n + 1))
      \<and> js_sub (Finite (of_int n)) (Finite 1) = Finite (of_int (n - 1)))"
  using js_step_int [of n]
  by (simp add: handleSortChange_def handleViewChange_def nextPage_def prevPage_def
      updateUrl_eq refetch_eq Let_def cur_setState cur_assign)

theorem C8_view_parameters_witness:
  "\<bar>1 :: int\<bar> < 2 ^ 53
   \<and> UserState.page (cur example_loaded) = Finite 1
   \<and> UserState.page (cur (fst (nextPage 20 example_loaded))) = Finite 2
   \<and> UserState.page (cur (fst (prevPage 20 example_loaded))) = Finite 0
   \<and> UserState.page (cur (fst (handleSortChange 20 TopAll (fst (nextPage 20 example_loaded)))))
       = Finite 1
   \<and> length (snd (nextPage 20 example_loaded)) = 3"
proof -
  have h: "\<bar>1 :: int\<bar> < 2 ^ 53"
    by simp
  have p: "UserState.page (cur example_loaded) = Finite 1"
    by (simp add: example_defs model_defs Let_def)
  show ?thesis
    using h p C8_view_parameters [of 20 TopAll "fst (nextPage 20 example_loaded)" Posts 1]
      C8_view_parameters [of 20 TopAll example_loaded Posts 1]
    by simp
qed

text \<open>
  The claim as stated fails: on the loaded example page, where \<open>loading\<close> is false, a
  change of sort, a change of view and a step to the next page all leave it false.
\<close>

theorem C8_loading_not_set:
  "\<not> loading (cur example_loaded)
   \<and> \<not> loading (cur (fst (handleSortChange 20 TopAll example_loaded)))
   \<and> \<not> loading (cur (fst (handleViewChange 20 Posts example_loaded)))
   \<and> \<not> loading (cur (fst (nextPage 20 example_loaded)))"
proof -
  have l: "\<not> loading (cur example_loaded)"
    by (simp add: example_defs model_defs Let_def)
  then show ?thesis
    by (simp add: handleSortChange_def handleViewChange_def nextPage_def
        updateUrl_eq Let_def cur_setState cur_assign)
qed

subsection \<open>The settings-save success\<close>

lemma parseMessage_SaveUserSettings:
  assumes "\<not> truthy_string (error msg)" and "\<not> truthy_bool (reconnect msg)"
    and "wsJsonToRes msg = SaveUserSettings data"
  shows "cur (fst (parseMessage fetchLimit su msg c))
           = (states c emptyStateRef)\<lparr>userSettingsLoading := Some False\<rparr>
       \<and> snd (parseMessage fetchLimit su msg c) = [Login data]"
  using assms
  by (simp add: parseMessage_def Let_def cur_def assign_def setState_def)

text \<open>
  Claim C6. The page is constructed for user 42, the answer to its first load request
  (one comment, two posts) is processed, and then a settings-save success. The success
  clears the settings busy flag and hands the new login to the identity service, but the
  state it installs is the object of \<^verbatim>\<open>emptyState\<close>, which was the state
  object when the load response was written: \<open>loading\<close> is false and the user, the
  comment and the two posts of the first load are still there.
\<close>

theorem C6_reset_after_load:
  "userSettingsLoading (cur (fst (parseMessage 20 None
       (envelope (SaveUserSettings example_login)) example_loaded))) = Some False
   \<and> snd (parseMessage 20 None (envelope (SaveUserSettings example_login)) example_loaded)
       = [Login example_login]
   \<and> \<not> loading (cur (fst (parseMessage 20 None
       (envelope (SaveUserSettings example_login)) example_loaded)))
   \<and> the_comments (fst (parseMessage 20 None
       (envelope (SaveUserSettings example_login)) example_loaded)) = [example_comment]
   \<and> length (the_posts (fst (parseMessage 20 None
       (envelope (SaveUserSettings example_login)) example_loaded))) = 2
   \<and> UserState.user (cur (fst (parseMessage 20 None
       (envelope (SaveUserSettings example_login)) example_loaded))) = example_user"
  by (simp add: example_defs model_defs Let_def)

subsection \<open>Busy flags\<close>

lemma handle_user_action:
  assumes "detached c" and "\<And>su msg. e \<noteq> Inbound su msg"
  shows "detached (fst (handle fl e c))
       \<and> flag_is_true f (cur (fst (handle fl e c))) = flag_after e f (flag_is_true f (cur c))"
proof (cases e)
  case (ImageUploadSettled r)
  with assms(1) show ?thesis
    by (cases r; cases f)
       (simp_all add: detached_def flag_after_def terminal_response_def resets_page_def
          handleImageUpload_settled_def Let_def cur_def assign_def setState_def
          emptyStateRef_def)
next
  case (Inbound su msg)
  with assms(2) [of su msg] show ?thesis by blast
qed (use assms(1) in \<open>cases f;
       simp add: detached_def flag_after_def terminal_response_def resets_page_def
          handleSortChange_def handleViewChange_def nextPage_def prevPage_def
          updateUrl_def componentWillReceiveProps_def
          handleUserSettingsSubmit_def handleDeleteAccount_def handleImageUpload_def
          Let_def cur_def assign_def setState_def emptyStateRef_def\<close>)+

lemma handle_error_envelope:
  assumes "detached c" and "truthy_string (error msg)"
  shows "detached (fst (handle fl (Inbound su msg) c))
       \<and> flag_is_true f (cur (fst (handle fl (Inbound su msg) c)))
           = flag_after (Inbound su msg) f (flag_is_true f (cur c))"
  using assms
  by (cases f)
     (simp_all add: detached_def flag_after_def terminal_response_def resets_page_def
        parseMessage_def Let_def cur_def assign_def setState_def emptyStateRef_def)

lemma handle_reconnect:
  assumes "detached c" and "\<not> truthy_string (error msg)" and "truthy_bool (reconnect msg)"
  shows "detached (fst (handle fl (Inbound su msg) c))
       \<and> flag_is_true f (cur (fst (handle fl (Inbound su msg) c)))
           = flag_after (Inbound su msg) f (flag_is_true f (cur c))"
  using assms
  by (cases f)
     (simp_all add: detached_def flag_after_def terminal_response_def resets_page_def
        parseMessage_def)

lemma handle_operation:
  assumes "detached c" and "\<not> truthy_string (error msg)"
    and "\<not> truthy_bool (reconnect msg)"
  shows "detached (fst (handle fl (Inbound su msg) c))
       \<and> flag_is_true f (cur (fst (handle fl (Inbound su msg) c)))
           = flag_after (Inbound su msg) f (flag_is_true f (cur c))"
proof (cases "wsJsonToRes msg")
  case (CreateComment d)
  with assms show ?thesis
    by (cases f)
       (simp_all add: detached_def flag_after_def terminal_response_def resets_page_def
          parseMessage_def)
next
  case OtherOperation
  with assms show ?thesis
    by (cases f)
       (simp_all add: detached_def flag_after_def terminal_response_def resets_page_def
          parseMessage_def)
qed (use assms in \<open>cases f;
       simp add: detached_def flag_after_def terminal_response_def resets_page_def
          parseMessage_def Let_def cur_def assign_def setState_def emptyStateRef_def\<close>)+

lemma handle_flags:
  assumes "detached c"
  shows "detached (fst (handle fl e c))
       \<and> flag_is_true f (cur (fst (handle fl e c))) = flag_after e f (flag_is_true f (cur c))"
proof (cases e)
  case (Inbound su msg)
  show ?thesis
    unfolding Inbound
    using handle_error_envelope [OF assms] handle_reconnect [OF assms]
      handle_operation [OF assms]
    by blast
qed (use handle_user_action [OF assms, of e fl f] in simp)+

lemma detached_example_loaded: "detached example_loaded"
  by (simp add: detached_def example_defs model_defs Let_def)

text \<open>
  Claim C3, as amended. From a page whose state object is no longer the object of
  \<^verbatim>\<open>emptyState\<close> and whose \<^verbatim>\<open>emptyState\<close> holds no true busy flag
  (the page after its first load, for one), and for every sequence of user actions,
  upload results and inbound envelopes: each busy flag is true afterwards if and only if
  its request has been sent and none of its terminal responses has been processed since,
  where the terminal responses of a flag are its matching success, any error envelope,
  and a settings-save success, which replaces the whole state object and with it every
  flag. The statement covers every step, since it holds for every sequence.
\<close>

theorem C3_busy_flags:
  assumes "detached c"
  shows "flag_is_true f (cur (run fetchLimit es c))
           = outstanding f (flag_is_true f (cur c)) es"
  using assms
proof (induction es arbitrary: c)
  case Nil
  then show ?case by simp
next
  case (Cons e es)
  from handle_flags [OF Cons.prems, of fetchLimit e f]
  have d: "detached (fst (handle fetchLimit e c))"
    and fl: "flag_is_true f (cur (fst (handle fetchLimit e c)))
               = flag_after e f (flag_is_true f (cur c))"
    by simp_all
  show ?case
    using Cons.IH [OF d] fl by (simp add: flag_after_def)
qed

theorem C3_busy_flags_witness:
  "detached example_loaded
   \<and> \<not> flag_is_true DeleteAccountLoading (cur example_loaded)
   \<and> outstanding DeleteAccountLoading False [UserSettingsSubmit, DeleteAccountSubmit]
   \<and> flag_is_true DeleteAccountLoading
       (cur (run 20 [UserSettingsSubmit, DeleteAccountSubmit] example_loaded))"
proof -
  have n: "\<not> flag_is_true DeleteAccountLoading (cur example_loaded)"
    by (simp add: example_defs model_defs Let_def)
  have o: "outstanding DeleteAccountLoading False [UserSettingsSubmit, DeleteAccountSubmit]"
    by (simp add: terminal_response_def resets_page_def)
  show ?thesis
    using n o detached_example_loaded
      C3_busy_flags [OF detached_example_loaded, of DeleteAccountLoading 20
        "[UserSettingsSubmit, DeleteAccountSubmit]"]
    by simp
qed

text \<open>
  The claim as stated fails: after the load, the two submissions and the settings-save
  success, the deletion request has been sent and neither a DeleteAccount success nor an
  error has been processed, yet \<open>deleteAccountLoading\<close> is not true (the state
  object installed by the success holds \<^verbatim>\<open>null\<close> there).
\<close>

theorem C3_flag_lost_on_reset:
  "outstanding_spec DeleteAccountLoading False example_trace
   \<and> \<not> flag_is_true DeleteAccountLoading (cur (run 20 example_trace example_page))
   \<and> deleteAccountLoading (cur (run 20 example_trace example_page)) = None"
  by (simp add: example_defs model_defs Let_def terminal_response_def)

text \<open>
  Why the amended statement starts from a page that has published a state: while the
  state object is still the object of \<^verbatim>\<open>emptyState\<close>, a submission writes its
  flag into that object, and a later settings-save success brings the flag back.
\<close>

lemma flag_back_after_reset:
  "\<not> outstanding DeleteAccountLoading False early_trace
   \<and> flag_is_true DeleteAccountLoading (cur (run 20 early_trace example_page))"
  by (simp add: example_defs model_defs Let_def terminal_response_def resets_page_def)

subsection \<open>Retrying the subscription\<close>

lemma subscription_run_stopped: "stopped s \<Longrightarrow> subscription_run s evs = []"
  by (induction evs) (simp_all add: subscription_step_def retryWhen_delay_take_def)

lemma subscription_run_counts:
  assumes "\<not> stopped s" and "taken s < 10"
  shows "OnError e \<notin> set (subscription_run s evs)
       \<and> count_list (subscription_run s evs) OnComplete
           = (if Complete \<in> set evs \<or> 10 \<le> taken s + errors evs then 1 else 0)
       \<and> (Complete \<notin> set evs \<longrightarrow>
            filter is_resubscribe (subscription_run s evs)
              = replicate (min (10 - taken s) (errors evs)) (Resubscribe 3000))
       \<and> (Complete \<notin> set evs \<and> taken s + errors evs < 10 \<longrightarrow>
            delivered (subscription_run s evs) = emitted evs)"
  using assms
proof (induction evs arbitrary: s)
  case Nil
  then show ?case by (simp add: errors_def)
next
  case (Cons ev evs)
  show ?case
  proof (cases ev)
    case (Next m)
    then have st: "subscription_step s ev = (s, [OnNext m])"
      using Cons.prems by (simp add: subscription_step_def retryWhen_delay_take_def)
    show ?thesis
      using Cons.IH [OF Cons.prems] st Next by (simp add: errors_def)
  next
    case (Error x)
    show ?thesis
    proof (cases "Suc (taken s) < 10")
      case True
      then have st: "subscription_step s ev
                       = (s\<lparr>taken := Suc (taken s)\<rparr>, [Resubscribe 3000])"
        using Cons.prems Error by (simp add: subscription_step_def retryWhen_delay_take_def)
      have p: "\<not> stopped (s\<lparr>taken := Suc (taken s)\<rparr>)"
        "taken (s\<lparr>taken := Suc (taken s)\<rparr>) < 10"
        using Cons.prems True by simp_all
      have m: "min (10 - taken s) (Suc (errors evs))
                 = Suc (min (10 - Suc (taken s)) (errors evs))"
        using True by simp
      show ?thesis
        using Cons.IH [OF p] st Error m by (simp add: errors_def)
    next
      case False
      then have st: "subscription_step s ev =
          (s\<lparr>taken := Suc (taken s), stopped := True\<rparr>, [Resubscribe 3000, OnComplete])"
        using Cons.prems Error by (simp add: subscription_step_def retryWhen_delay_take_def)
      have r: "subscription_run (s\<lparr>taken := Suc (taken s), stopped := True\<rparr>) evs = []"
        by (rule subscription_run_stopped) simp
      have t: "taken s = 9"
        using False Cons.prems by simp
      show ?thesis
        using st r Error t by (simp add: errors_def)
    qed
  next
    case Complete
    then have st: "subscription_step s ev = (s\<lparr>stopped := True\<rparr>, [OnComplete])"
      using Cons.prems by (simp add: subscription_step_def retryWhen_delay_take_def)
    have r: "subscription_run (s\<lparr>stopped := True\<rparr>) evs = []"
      by (rule subscription_run_stopped) simp
    show ?thesis
      using st r Complete by simp
  qed
qed

lemma replicate_10: "replicate 10 x = [x, x, x, x, x, x, x, x, x, x]"
  by (simp add: eval_nat_numeral)

text \<open>
  Claim C7, as amended. On every error of the inbound stream the page subscribes again
  after the fixed delay of 3000 ms, for the first 10 errors of the subscription; the
  errors are counted over the whole life of the subscription, whatever arrives between
  them. The error callback of the subscriber is never called. The stream completes, and
  the subscriber observes that exactly once, when the source completes or the tenth error
  has been handled; while fewer than 10 errors have occurred every message is delivered.
\<close>

theorem C7_retry:
  "OnError e \<notin> set (subscription_run subscribed evs)
   \<and> count_list (subscription_run subscribed evs) OnComplete
       = (if Complete \<in> set evs \<or> 10 \<le> errors evs then 1 else 0)
   \<and> (Complete \<notin> set evs \<longrightarrow>
        filter is_resubscribe (subscription_run subscribed evs)
          = replicate (min 10 (errors evs)) (Resubscribe 3000))
   \<and> (Complete \<notin> set evs \<and> errors evs < 10 \<longrightarrow>
        delivered (subscription_run subscribed evs) = emitted evs)"
  using subscription_run_counts [of subscribed e evs]
  by (simp add: subscribed_def)

theorem C7_retry_witness:
  "Complete \<notin> set [Next (envelope OtherOperation), Error ''closed'',
                     Next (envelope DeleteAccount)]
   \<and> errors [Next (envelope OtherOperation), Error ''closed'',
              Next (envelope DeleteAccount)] < 10
   \<and> delivered (subscription_run subscribed
        [Next (envelope OtherOperation), Error ''closed'', Next (envelope DeleteAccount)])
       = [envelope OtherOperation, envelope DeleteAccount]
   \<and> filter is_resubscribe (subscription_run subscribed
        [Next (envelope OtherOperation), Error ''closed'', Next (envelope DeleteAccount)])
       = [Resubscribe 3000]"
proof -
  have h1: "Complete \<notin> set [Next (envelope OtherOperation), Error ''closed'',
                     Next (envelope DeleteAccount)]"
    by simp
  have h2: "errors [Next (envelope OtherOperation), Error ''closed'',
              Next (envelope DeleteAccount)] < 10"
    by (simp add: errors_def)
  have e: "errors [Next (envelope OtherOperation), Error ''closed'',
              Next (envelope DeleteAccount)] = 1"
    by (simp add: errors_def)
  show ?thesis
    using h1 h2 e
      C7_retry [of "''x''" "[Next (envelope OtherOperation), Error ''closed'',
                     Next (envelope DeleteAccount)]"]
    by simp
qed

text \<open>
  The claim as stated fails. Ten failures in a row end in completion: the error callback
  is not called once. And the count is not reset by a successful reopening: with a
  message delivered after each failure, the tenth failure still completes the stream, and
  the message that follows it is not delivered.
\<close>

theorem C7_completes_without_error:
  "subscription_run subscribed
      (replicate 10 (Error ''closed'') :: WebSocketJsonResponse notification list)
     = replicate 10 (Resubscribe 3000) @ [OnComplete]
   \<and> count_list (subscription_run subscribed
        (replicate 10 (Error ''closed'') :: WebSocketJsonResponse notification list))
        (OnError ''closed'') = 0
   \<and> length (emitted failing_stream) = 10
   \<and> length (delivered (subscription_run subscribed failing_stream)) = 9
   \<and> last (subscription_run subscribed failing_stream) = OnComplete"
  by (simp add: replicate_10 failing_stream_def subscription_step_def
      retryWhen_delay_take_def subscribed_def)

subsection \<open>The order of the overview\<close>
















end
